theory Spec2Isabelle
  imports Main
begin

section \<open>Exceptions, the session capability and the world\<close>

text \<open>
  The plugin module \<^verbatim>\<open>flexget/components/ftp/sftp.py\<close> is embedded function by
  function. Exceptions are values: a computation returns either a result or the
  exception it raises, together with the world it leaves behind. \<open>IOError\<close> stands
  for every exception that an \<^verbatim>\<open>except IOError\<close> clause catches, \<open>OtherError\<close> for every
  other subclass of \<^verbatim>\<open>Exception\<close> raised by a collaborator.
\<close>

datatype exn =
    IOError string
  | RenderError string
  | TypeError string
  | ValueError string
  | IndexError string
  | KeyError string
  | PluginError string
  | DependencyError string
  | OtherError string

fun is_IOError :: "exn \<Rightarrow> bool" where
  "is_IOError (IOError m) = True"
| "is_IOError e = False"

fun exn_text :: "exn \<Rightarrow> string" where
  "exn_text (IOError m) = m"
| "exn_text (RenderError m) = m"
| "exn_text (TypeError m) = m"
| "exn_text (ValueError m) = m"
| "exn_text (IndexError m) = m"
| "exn_text (KeyError m) = m"
| "exn_text (PluginError m) = m"
| "exn_text (DependencyError m) = m"
| "exn_text (OtherError m) = m"

text \<open>The named tuple \<^verbatim>\<open>ConnectionConfig\<close>; equality is structural over all six fields.\<close>

record ConnectionConfig =
  host :: "string option"
  port :: int
  username :: "string option"
  password :: "string option"
  private_key :: "string option"
  private_key_pass :: "string option"

text \<open>
  A remote directory as \<^verbatim>\<open>walktree\<close> of the session meets it: the children of a
  directory, in listing order. \<open>RError n e\<close> is a child at which the walk itself raises
  \<open>e\<close> (its \<^verbatim>\<open>stat\<close>, or the listing below it, fails).
\<close>

datatype rnode =
    RFile string
  | RDir string "rnode list"
  | RUnknown string
  | RError string exn

text \<open>What \<^verbatim>\<open>sftp.get\<close> does: it succeeds, or raises, leaving a partly written
  destination file behind or not.\<close>

datatype get_result = GetOk | GetFail exn bool

text \<open>
  The open session (\<^verbatim>\<open>pysftp.Connection\<close>) is an opaque capability; its answers are
  fields of the record. \<open>None\<close> from an operation that returns nothing means it
  returned normally. \<open>sftp_set_timeout\<close> is what the assignment to the property
  \<^verbatim>\<open>timeout\<close> does: it opens the SFTP channel and may raise.
\<close>

record sftp =
  timeout :: "int option"
  sftp_set_timeout :: "exn option"
  sftp_lexists :: "string \<Rightarrow> bool"
  sftp_exists :: "string \<Rightarrow> bool"
  sftp_isfile :: "string \<Rightarrow> bool"
  sftp_isdir :: "string \<Rightarrow> bool"
  sftp_cwd :: "string \<Rightarrow> exn option"
  sftp_get :: "string \<Rightarrow> string \<Rightarrow> get_result"
  sftp_put :: "string \<Rightarrow> string \<Rightarrow> exn option"
  sftp_remove :: "string \<Rightarrow> exn option"
  sftp_rmdir :: "string \<Rightarrow> exn option"
  sftp_makedirs :: "string \<Rightarrow> exn option"
  sftp_listdir :: "string \<Rightarrow> exn + string list"
  sftp_tree :: "string \<Rightarrow> exn + rnode list"
  sftp_lstat :: "string \<Rightarrow> exn + int"
  sftp_normalize :: "string \<Rightarrow> exn + string"

text \<open>
  The parts of a URL that \<^verbatim>\<open>urlparse\<close> exposes and the module reads. Reading
  \<^verbatim>\<open>port\<close> raises \<^verbatim>\<open>ValueError\<close> when the port is not a number in range.
\<close>

record parsed_url =
  url_scheme :: string
  url_hostname :: "string option"
  url_username :: "string option"
  url_password :: "string option"
  url_port :: "exn + int option"
  url_path :: string

text \<open>An \<^verbatim>\<open>Entry\<close>: the keys the module reads or writes.\<close>

record Entry =
  title :: string
  url :: string
  location :: "string option"
  content_size :: "int option"
  entry_private_key :: "string option"
  entry_private_key_pass :: "string option"

text \<open>
  The collaborators outside the module: the outcome of the \<open>n\<close>-th call of
  \<^verbatim>\<open>pysftp.Connection\<close>, the URL functions of the standard library, template
  rendering, \<^verbatim>\<open>os.makedirs\<close> and \<^verbatim>\<open>os.remove\<close> (\<open>None\<close> when they return normally),
  and whether the \<^verbatim>\<open>pysftp\<close> module could be imported. \<^verbatim>\<open>urlparse\<close> raises
  \<^verbatim>\<open>ValueError\<close> on a malformed network location.
\<close>

record env =
  Connection :: "ConnectionConfig \<Rightarrow> nat \<Rightarrow> exn + sftp"
  urlparse :: "string \<Rightarrow> exn + parsed_url"
  unquote :: "string \<Rightarrow> string"
  quote :: "string \<Rightarrow> string"
  urljoin :: "string \<Rightarrow> string \<Rightarrow> string"
  render_from_entry :: "string \<Rightarrow> Entry \<Rightarrow> exn + string"
  os_makedirs :: "string \<Rightarrow> exn option"
  os_remove :: "string \<Rightarrow> exn option"
  pysftp_present :: bool

text \<open>
  Why a record was failed: one constructor for each call of \<^verbatim>\<open>entry.fail\<close>, holding
  what its message is built from. \<open>FailNoReason\<close> is \<^verbatim>\<open>entry.fail(None)\<close>.
\<close>

datatype fail_reason =
    FailRender exn
  | FailDownloadFile string exn
  | FailDownloadDir string exn
  | FailConnect "string option" exn
  | FailMakedirs exn
  | FailNotADirectory string
  | FailRemoteDirMissing string
  | FailUpload string exn
  | FailNoConnection Entry
  | FailNoReason

text \<open>
  The world the module acts on: how often a connection was attempted, the sleeps in
  order, sessions opened and closed, the local paths that exist, the calls of
  \<^verbatim>\<open>sftp.get\<close> (remote path, local path) and of \<^verbatim>\<open>sftp.put\<close>, the remote files and
  directories removed, and the failures recorded on entries, in order.
\<close>

record world =
  attempts :: nat
  sleeps :: "int list"
  opened :: nat
  closed :: nat
  local_fs :: "string set"
  gets :: "(string \<times> string) list"
  uploads :: "(string \<times> string) list"
  remote_removed :: "string list"
  remote_rmdirs :: "string list"
  failures :: "(Entry \<times> fail_reason) list"

section \<open>Connecting\<close>

definition CONNECT_TRIES :: nat where "CONNECT_TRIES = 3"
definition RETRY_INTERVAL :: int where "RETRY_INTERVAL = 15"
definition RETRY_STEP :: int where "RETRY_STEP = 5"
definition SOCKET_TIMEOUT :: int where "SOCKET_TIMEOUT = 15"

text \<open>
  The loop of \<^verbatim>\<open>sftp_connect\<close>, with its two variables \<^verbatim>\<open>tries\<close> and
  \<^verbatim>\<open>retry_interval\<close> as arguments. \<^verbatim>\<open>tries\<close> starts at \<open>CONNECT_TRIES\<close> and is only
  decremented while it is not zero, so it is a natural number. A failed attempt with
  \<^verbatim>\<open>tries\<close> at zero re-raises; otherwise the loop sleeps, decrements and tries again.
  The assignment of the timeout stands inside the \<^verbatim>\<open>try\<close>: when it raises, the
  variable \<^verbatim>\<open>sftp\<close> already holds the connection, so after the sleep the loop ends and
  the connection is returned without a timeout, or, with \<^verbatim>\<open>tries\<close> at zero, the
  exception is raised and the connection stays open.
\<close>

fun sftp_connect_loop ::
  "env \<Rightarrow> ConnectionConfig \<Rightarrow> nat \<Rightarrow> int \<Rightarrow> world \<Rightarrow> (exn + sftp) \<times> world" where
  "sftp_connect_loop ev conf 0 retry_interval w =
     (case Connection ev conf (attempts w) of
        Inr s \<Rightarrow>
          (case sftp_set_timeout s of
             None \<Rightarrow> (Inr (s\<lparr>timeout := Some SOCKET_TIMEOUT\<rparr>),
                      w\<lparr>attempts := attempts w + 1, opened := opened w + 1\<rparr>)
           | Some e \<Rightarrow> (Inl e, w\<lparr>attempts := attempts w + 1, opened := opened w + 1\<rparr>))
      | Inl e \<Rightarrow> (Inl e, w\<lparr>attempts := attempts w + 1\<rparr>))"
| "sftp_connect_loop ev conf (Suc tries) retry_interval w =
     (case Connection ev conf (attempts w) of
        Inr s \<Rightarrow>
          (case sftp_set_timeout s of
             None \<Rightarrow> (Inr (s\<lparr>timeout := Some SOCKET_TIMEOUT\<rparr>),
                      w\<lparr>attempts := attempts w + 1, opened := opened w + 1\<rparr>)
           | Some e \<Rightarrow> (Inr s, w\<lparr>attempts := attempts w + 1, opened := opened w + 1,
                                sleeps := sleeps w @ [retry_interval]\<rparr>))
      | Inl e \<Rightarrow> sftp_connect_loop ev conf tries (retry_interval + RETRY_STEP)
                  (w\<lparr>attempts := attempts w + 1, sleeps := sleeps w @ [retry_interval]\<rparr>))"

text \<open>
  \<^verbatim>\<open>sftp_connect\<close> returns the value of its variable \<^verbatim>\<open>sftp\<close>, which starts as
  \<^verbatim>\<open>None\<close>; the loop \<^verbatim>\<open>while not sftp\<close> ends once it holds a connection (a
  \<^verbatim>\<open>pysftp.Connection\<close> is truthy). The result is typed as the callers test it: a session
  or \<^verbatim>\<open>None\<close>.
\<close>

definition sftp_connect ::
  "env \<Rightarrow> ConnectionConfig \<Rightarrow> world \<Rightarrow> (exn + sftp option) \<times> world" where
  "sftp_connect ev conf w =
     (case sftp_connect_loop ev conf CONNECT_TRIES RETRY_INTERVAL w of
        (Inl e, w') \<Rightarrow> (Inl e, w')
      | (Inr s, w') \<Rightarrow> (Inr (Some s), w'))"

text \<open>The plugin configuration, after schema validation has filled in its defaults.\<close>

datatype dirs_value = OneDir string | ManyDirs "string list"

record config =
  cfg_host :: string
  cfg_port :: int
  cfg_username :: string
  cfg_password :: "string option"
  cfg_private_key :: "string option"
  cfg_private_key_pass :: "string option"
  cfg_files_only :: bool
  cfg_recursive :: bool
  cfg_get_size :: bool
  cfg_delete_origin :: bool
  cfg_dirs :: "dirs_value option"
  cfg_to :: "string option"

text \<open>Python's truth value of a string or \<^verbatim>\<open>None\<close>.\<close>

fun truthy :: "string option \<Rightarrow> bool" where
  "truthy None = False"
| "truthy (Some s) = (s \<noteq> [])"

fun opt_str :: "string option \<Rightarrow> string" where
  "opt_str None = ''None''"
| "opt_str (Some s) = s"

definition sftp_from_config :: "env \<Rightarrow> config \<Rightarrow> world \<Rightarrow> (exn + sftp option) \<times> world" where
  "sftp_from_config ev cfg w =
     (let conn_conf = \<lparr>host = Some (cfg_host cfg), port = cfg_port cfg,
                        username = Some (cfg_username cfg), password = cfg_password cfg,
                        private_key = cfg_private_key cfg,
                        private_key_pass = cfg_private_key_pass cfg\<rparr>
      in case sftp_connect ev conn_conf w of
           (Inl e, w') \<Rightarrow>
             (Inl (PluginError (''Failed to connect to '' @ cfg_host cfg @ '' ('' @ exn_text e @ '')'')), w')
         | (Inr s, w') \<Rightarrow> (Inr s, w'))"

text \<open>Decimal digits, for \<^verbatim>\<open>'%d'\<close>.\<close>

fun nat_digits :: "nat \<Rightarrow> string" where
  "nat_digits n =
     (if n < 10 then [''0123456789'' ! n]
      else nat_digits (n div 10) @ [''0123456789'' ! (n mod 10)])"

declare nat_digits.simps [simp del]

definition int_digits :: "int \<Rightarrow> string" where
  "int_digits i = (if i < 0 then CHR ''-'' # nat_digits (nat (- i)) else nat_digits (nat i))"

definition sftp_prefix :: "config \<Rightarrow> string" where
  "sftp_prefix cfg =
     (let login_str =
            (if cfg_username cfg \<noteq> [] \<and> truthy (cfg_password cfg)
             then cfg_username cfg @ '':'' @ opt_str (cfg_password cfg) @ ''@''
             else if cfg_username cfg \<noteq> [] then cfg_username cfg @ ''@''
             else []);
          port_str =
            (if cfg_port cfg \<noteq> 0 \<and> cfg_port cfg \<noteq> 22 then '':'' @ int_digits (cfg_port cfg)
             else [])
      in ''sftp://'' @ login_str @ cfg_host cfg @ port_str @ ''/'')"

definition dependency_check :: "env \<Rightarrow> exn option" where
  "dependency_check ev =
     (if \<not> pysftp_present ev
      then Some (DependencyError ''sftp plugin requires the pysftp Python module.'')
      else None)"

section \<open>Paths\<close>

text \<open>
  \<^verbatim>\<open>posixpath.join\<close>, \<^verbatim>\<open>split\<close>, \<^verbatim>\<open>basename\<close>, \<^verbatim>\<open>dirname\<close> and
  \<^verbatim>\<open>normpath\<close> of the standard library, on which \<^verbatim>\<open>remotepath\<close> is built.
  \<^verbatim>\<open>localpath\<close> is \<^verbatim>\<open>os.path\<close>, taken here on a POSIX host, where it is the same module.
\<close>

definition is_sep :: "char \<Rightarrow> bool" where
  "is_sep c = (c = CHR ''/'')"

fun startswith_sep :: "string \<Rightarrow> bool" where
  "startswith_sep [] = False"
| "startswith_sep (c # cs) = is_sep c"

definition endswith_sep :: "string \<Rightarrow> bool" where
  "endswith_sep s = startswith_sep (rev s)"

definition join2 :: "string \<Rightarrow> string \<Rightarrow> string" where
  "join2 path b =
     (if startswith_sep b then b
      else if path = [] \<or> endswith_sep path then path @ b
      else path @ ''/'' @ b)"

definition path_join :: "string \<Rightarrow> string list \<Rightarrow> string" where
  "path_join a p = foldl join2 a p"

definition rstrip_sep :: "string \<Rightarrow> string" where
  "rstrip_sep s = rev (dropWhile is_sep (rev s))"

definition path_split :: "string \<Rightarrow> string \<times> string" where
  "path_split p =
     (let head = rev (dropWhile (\<lambda>c. \<not> is_sep c) (rev p));
          tail = rev (takeWhile (\<lambda>c. \<not> is_sep c) (rev p))
      in (if head \<noteq> [] \<and> \<not> list_all is_sep head then rstrip_sep head else head, tail))"

definition basename :: "string \<Rightarrow> string" where
  "basename p = snd (path_split p)"

definition dirname :: "string \<Rightarrow> string" where
  "dirname p = fst (path_split p)"

text \<open>\<^verbatim>\<open>str.split('/')\<close> and \<^verbatim>\<open>'/'.join\<close>.\<close>

fun split_sep :: "string \<Rightarrow> string list" where
  "split_sep [] = [[]]"
| "split_sep (c # cs) =
     (if is_sep c then [] # split_sep cs
      else (case split_sep cs of [] \<Rightarrow> [[c]] | w # ws \<Rightarrow> (c # w) # ws))"

fun join_sep :: "string list \<Rightarrow> string" where
  "join_sep [] = []"
| "join_sep [w] = w"
| "join_sep (w # ws) = w @ ''/'' @ join_sep ws"

text \<open>One step of the component loop of \<^verbatim>\<open>normpath\<close>.\<close>

definition norm_step :: "bool \<Rightarrow> string list \<Rightarrow> string \<Rightarrow> string list" where
  "norm_step initial_slashes new_comps part =
     (if part = [] \<or> part = ''.'' then new_comps
      else if part \<noteq> ''..'' \<or> (\<not> initial_slashes \<and> new_comps = [])
              \<or> (new_comps \<noteq> [] \<and> last new_comps = ''..'')
           then new_comps @ [part]
      else if new_comps \<noteq> [] then butlast new_comps
      else new_comps)"

definition normpath :: "string \<Rightarrow> string" where
  "normpath path =
     (if path = [] then ''.''
      else
        let initial_slashes =
              (if startswith_sep path
               then (if take 2 path = ''//'' \<and> take 3 path \<noteq> ''///'' then 2 else 1)
               else (0::nat));
            comps = foldl (norm_step (initial_slashes \<noteq> 0)) [] (split_sep path);
            p = replicate initial_slashes CHR ''/'' @ join_sep comps
        in if p = [] then ''.'' else p)"

section \<open>Walking a remote tree\<close>

text \<open>
  \<^verbatim>\<open>walktree(remotepath, fcallback, dcallback, ucallback, recurse)\<close> of the session
  lists \<^verbatim>\<open>remotepath\<close> and hands every child, by its joined path name, to the callback
  of its kind; below a directory it goes on, depth first, when \<^verbatim>\<open>recurse\<close> is set. The
  root itself is handed to no callback. A callback that raises ends the walk.
\<close>

type_synonym 's callback = "string \<Rightarrow> 's \<Rightarrow> exn option \<times> 's"

fun walk_node ::
  "'s callback \<Rightarrow> 's callback \<Rightarrow> 's callback \<Rightarrow> bool \<Rightarrow> string \<Rightarrow> rnode \<Rightarrow> 's \<Rightarrow> exn option \<times> 's"
and walk_nodes ::
  "'s callback \<Rightarrow> 's callback \<Rightarrow> 's callback \<Rightarrow> bool \<Rightarrow> string \<Rightarrow> rnode list \<Rightarrow> 's \<Rightarrow> exn option \<times> 's"
where
  "walk_node fcb dcb ucb recurse dir (RFile name) s = fcb (path_join dir [name]) s"
| "walk_node fcb dcb ucb recurse dir (RDir name children) s =
     (case dcb (path_join dir [name]) s of
        (Some e, s') \<Rightarrow> (Some e, s')
      | (None, s') \<Rightarrow>
          if recurse then walk_nodes fcb dcb ucb True (path_join dir [name]) children s'
          else (None, s'))"
| "walk_node fcb dcb ucb recurse dir (RUnknown name) s = ucb (path_join dir [name]) s"
| "walk_node fcb dcb ucb recurse dir (RError name e) s = (Some e, s)"
| "walk_nodes fcb dcb ucb recurse dir [] s = (None, s)"
| "walk_nodes fcb dcb ucb recurse dir (n # ns) s =
     (case walk_node fcb dcb ucb recurse dir n s of
        (Some e, s') \<Rightarrow> (Some e, s')
      | (None, s') \<Rightarrow> walk_nodes fcb dcb ucb recurse dir ns s')"

definition walktree ::
  "sftp \<Rightarrow> string \<Rightarrow> 's callback \<Rightarrow> 's callback \<Rightarrow> 's callback \<Rightarrow> bool \<Rightarrow> 's \<Rightarrow> exn option \<times> 's" where
  "walktree sf remotepath fcb dcb ucb recurse s =
     (case sftp_tree sf remotepath of
        Inl e \<Rightarrow> (Some e, s)
      | Inr children \<Rightarrow> walk_nodes fcb dcb ucb recurse remotepath children s)"

section \<open>Listing\<close>

definition prepare_config_list :: "config \<Rightarrow> config" where
  "prepare_config_list cfg =
     (case cfg_dirs cfg of None \<Rightarrow> cfg\<lparr>cfg_dirs := Some (ManyDirs [''.''])\<rparr> | Some d \<Rightarrow> cfg)"

definition file_size :: "sftp \<Rightarrow> string \<Rightarrow> exn + int" where
  "file_size sf path = sftp_lstat sf path"

text \<open>\<^verbatim>\<open>node_size\<close> appends to the list \<^verbatim>\<open>sizes\<close> of the enclosing \<^verbatim>\<open>dir_size\<close>.\<close>

definition node_size :: "sftp \<Rightarrow> int list callback" where
  "node_size sf f sizes =
     (case file_size sf f of Inl e \<Rightarrow> (Some e, sizes) | Inr n \<Rightarrow> (None, sizes @ [n]))"

definition dir_size :: "sftp \<Rightarrow> string \<Rightarrow> exn + int" where
  "dir_size sf path =
     (case walktree sf path (node_size sf) (node_size sf) (node_size sf) True [] of
        (Some e, sizes) \<Rightarrow> Inl e
      | (None, sizes) \<Rightarrow> Inr (sum_list sizes))"

text \<open>\<^verbatim>\<open>handle_node\<close> appends to the list \<^verbatim>\<open>entries\<close> of \<^verbatim>\<open>on_task_input\<close>.\<close>

definition handle_node ::
  "env \<Rightarrow> config \<Rightarrow> sftp \<Rightarrow> string \<Rightarrow> (string \<Rightarrow> exn + int) \<Rightarrow> bool \<Rightarrow> string \<Rightarrow>
   Entry list \<Rightarrow> exn option \<times> Entry list" where
  "handle_node ev cfg sf url_prefix size_handler is_dir path entries =
     (if is_dir \<and> cfg_files_only cfg then (None, entries)
      else case sftp_normalize sf path of
        Inl e \<Rightarrow> (Some e, entries)
      | Inr normalized \<Rightarrow>
          let entry = \<lparr>title = basename path,
                       url = urljoin ev url_prefix (quote ev normalized),
                       location = None, content_size = None,
                       entry_private_key = None, entry_private_key_pass = None\<rparr>;
              entry = (if cfg_get_size cfg
                       then entry\<lparr>content_size :=
                              Some (case size_handler path of Inl e \<Rightarrow> - 1 | Inr n \<Rightarrow> n)\<rparr>
                       else entry);
              entry = (if truthy (cfg_private_key cfg)
                       then (let entry = entry\<lparr>entry_private_key := cfg_private_key cfg\<rparr>
                             in if truthy (cfg_private_key_pass cfg)
                                then entry\<lparr>entry_private_key_pass := cfg_private_key_pass cfg\<rparr>
                                else entry)
                       else entry)
          in (None, entries @ [entry]))"

definition handle_unknown_list :: "Entry list callback" where
  "handle_unknown_list path entries = (None, entries)"

text \<open>
  The loop over \<^verbatim>\<open>dirs\<close>: an \<^verbatim>\<open>IOError\<close> from a walk is logged and the loop goes on
  with the entries gathered so far; any other exception leaves the loop.
\<close>

fun list_dirs ::
  "env \<Rightarrow> config \<Rightarrow> sftp \<Rightarrow> string \<Rightarrow> string list \<Rightarrow> Entry list \<Rightarrow> exn option \<times> Entry list" where
  "list_dirs ev cfg sf url_prefix [] entries = (None, entries)"
| "list_dirs ev cfg sf url_prefix (d # ds) entries =
     (case walktree sf d
             (handle_node ev cfg sf url_prefix (file_size sf) False)
             (handle_node ev cfg sf url_prefix (dir_size sf) True)
             handle_unknown_list (cfg_recursive cfg) entries of
        (None, entries') \<Rightarrow> list_dirs ev cfg sf url_prefix ds entries'
      | (Some e, entries') \<Rightarrow>
          if is_IOError e then list_dirs ev cfg sf url_prefix ds entries'
          else (Some e, entries'))"

definition sftp_close :: "world \<Rightarrow> world" where
  "sftp_close w = w\<lparr>closed := closed w + 1\<rparr>"

text \<open>
  \<^verbatim>\<open>SftpList.on_task_input\<close>. The variable \<^verbatim>\<open>sftp\<close> comes from
  \<^verbatim>\<open>sftp_from_config\<close>; a call of a method on \<^verbatim>\<open>None\<close> would raise.
\<close>

definition on_task_input :: "env \<Rightarrow> config \<Rightarrow> world \<Rightarrow> (exn + Entry list) \<times> world" where
  "on_task_input ev config0 w =
     (case dependency_check ev of
        Some e \<Rightarrow> (Inl e, w)
      | None \<Rightarrow>
          let cfg = prepare_config_list config0;
              dirs = (case cfg_dirs cfg of
                        Some (ManyDirs ds) \<Rightarrow> ds
                      | Some (OneDir d) \<Rightarrow> [d]
                      | None \<Rightarrow> [])
          in case sftp_from_config ev cfg w of
               (Inl e, w') \<Rightarrow> (Inl e, w')
             | (Inr None, w') \<Rightarrow>
                 (Inl (OtherError ''NoneType object has no attribute walktree''), w')
             | (Inr (Some sf), w') \<Rightarrow>
                 (case list_dirs ev cfg sf (sftp_prefix cfg) dirs [] of
                    (Some e, entries) \<Rightarrow> (Inl e, w')
                  | (None, entries) \<Rightarrow> (Inr entries, sftp_close w')))"

section \<open>Downloading\<close>

text \<open>\<^verbatim>\<open>entry.fail(reason)\<close>: the failure is recorded for the task runner.\<close>

definition entry_fail :: "Entry \<Rightarrow> fail_reason \<Rightarrow> world \<Rightarrow> world" where
  "entry_fail entry reason w = w\<lparr>failures := failures w @ [(entry, reason)]\<rparr>"

text \<open>\<^verbatim>\<open>x or None\<close> on an optional string, and \<^verbatim>\<open>parsed.port or 22\<close>.\<close>

fun or_None :: "string option \<Rightarrow> string option" where
  "or_None None = None"
| "or_None (Some s) = (if s = [] then None else Some s)"

fun port_or_22 :: "int option \<Rightarrow> int" where
  "port_or_22 None = 22"
| "port_or_22 (Some p) = (if p = 0 then 22 else p)"

text \<open>
  \<^verbatim>\<open>get_sftp_config\<close> parses the URL and reads the port before it looks at the scheme,
  outside any \<^verbatim>\<open>try\<close>: a \<^verbatim>\<open>ValueError\<close> from either is raised to the caller.
\<close>

definition get_sftp_config :: "env \<Rightarrow> Entry \<Rightarrow> exn + ConnectionConfig option" where
  "get_sftp_config ev entry =
     (case urlparse ev (url entry) of
        Inl e \<Rightarrow> Inl e
      | Inr parsed \<Rightarrow>
          let host = url_hostname parsed;
              username = or_None (url_username parsed);
              password = or_None (url_password parsed)
          in case url_port parsed of
               Inl e \<Rightarrow> Inl e
             | Inr parsed_port \<Rightarrow>
                 let port = port_or_22 parsed_port;
                     private_key = entry_private_key entry;
                     private_key_pass = entry_private_key_pass entry
                 in if url_scheme parsed = ''sftp''
                    then Inr (Some \<lparr>host = host, port = port, username = username,
                                      password = password, private_key = private_key,
                                      private_key_pass = private_key_pass\<rparr>)
                    else Inr None)"

text \<open>\<^verbatim>\<open>remove_dir\<close>: the directory is removed if it exists and lists as empty.\<close>

definition remove_dir :: "sftp \<Rightarrow> string \<Rightarrow> world \<Rightarrow> exn option \<times> world" where
  "remove_dir sf path w =
     (if sftp_exists sf path
      then (case sftp_listdir sf path of
              Inl e \<Rightarrow> (Some e, w)
            | Inr names \<Rightarrow>
                if names = []
                then (case sftp_rmdir sf path of
                        None \<Rightarrow> (None, w\<lparr>remote_rmdirs := remote_rmdirs w @ [path]\<rparr>)
                      | Some e \<Rightarrow> (None, w))
                else (None, w))
      else (None, w))"

text \<open>
  \<^verbatim>\<open>download_file\<close>. The local file system is the set of paths that exist:
  \<^verbatim>\<open>os.makedirs\<close> adds the directory, a successful \<^verbatim>\<open>sftp.get\<close> adds the destination, a
  failed one adds it when it leaves a partial file, and \<^verbatim>\<open>os.remove\<close> takes an existing
  path away unless it raises; in the handler of the failed \<^verbatim>\<open>get\<close> it is not guarded, so
  its exception is the one that leaves the function. \<^verbatim>\<open>dest\<close> is the configured \<^verbatim>\<open>to\<close>, which may be \<^verbatim>\<open>None\<close>; joining
  \<^verbatim>\<open>None\<close> to a path raises.
\<close>

definition download_file ::
  "env \<Rightarrow> string \<Rightarrow> string option \<Rightarrow> sftp \<Rightarrow> bool \<Rightarrow> world \<Rightarrow> exn option \<times> world" where
  "download_file ev path dest sf delete_origin w =
     (let dir_name = dirname path;
          dest_relpath = path_join (fst (path_split path)) [snd (path_split path)]
      in case dest of
           None \<Rightarrow> (Some (TypeError ''expected str, bytes or os.PathLike object, not NoneType''), w)
         | Some dest_root \<Rightarrow>
             let destination = path_join dest_root [dest_relpath];
                 dest_dir = dirname destination
             in if destination \<in> local_fs w then (None, w)
                else
                  case (if dest_dir \<notin> local_fs w then os_makedirs ev dest_dir else None) of
                    Some e \<Rightarrow> (Some e, w)
                  | None \<Rightarrow>
                      let w1 = w\<lparr>local_fs := insert dest_dir (local_fs w)\<rparr>;
                          w2 = w1\<lparr>gets := gets w1 @ [(path, destination)]\<rparr>
                      in case sftp_get sf path destination of
                           GetFail e partial \<Rightarrow>
                             let w3 = (if partial
                                       then w2\<lparr>local_fs := insert destination (local_fs w2)\<rparr>
                                       else w2)
                             in if destination \<in> local_fs w3
                                then (case os_remove ev destination of
                                        None \<Rightarrow>
                                          (Some e, w3\<lparr>local_fs := local_fs w3 - {destination}\<rparr>)
                                      | Some e' \<Rightarrow> (Some e', w3))
                                else (Some e, w3)
                         | GetOk \<Rightarrow>
                             let w3 = w2\<lparr>local_fs := insert destination (local_fs w2)\<rparr>
                             in if delete_origin
                                then (case sftp_remove sf path of
                                        Some e \<Rightarrow> (None, w3)
                                      | None \<Rightarrow>
                                          remove_dir sf dir_name
                                            (w3\<lparr>remote_removed := remote_removed w3 @ [path]\<rparr>))
                                else (None, w3))"

definition handle_dir :: "world callback" where
  "handle_dir path w = (None, w)"

definition handle_unknown :: "world callback" where
  "handle_unknown path w = (None, w)"

text \<open>
  \<^verbatim>\<open>download_entry\<close>. Only a \<^verbatim>\<open>RenderError\<close> from rendering is caught; the two
  transfer branches catch every exception and fail the entry.
\<close>

definition download_entry :: "env \<Rightarrow> Entry \<Rightarrow> config \<Rightarrow> sftp \<Rightarrow> world \<Rightarrow> exn option \<times> world" where
  "download_entry ev entry cfg sf w =
     (case urlparse ev (url entry) of
        Inl e \<Rightarrow> (Some e, w)
      | Inr parsed \<Rightarrow>
      let path = (let p = unquote ev (url_path parsed)
                  in if p = [] then ''.'' else p);
          delete_origin = cfg_delete_origin cfg;
          recursive = cfg_recursive cfg
      in case (if truthy (cfg_to cfg)
               then map_sum id Some (render_from_entry ev (opt_str (cfg_to cfg)) entry)
               else Inr (cfg_to cfg)) of
           Inl (RenderError m) \<Rightarrow> (None, entry_fail entry (FailRender (RenderError m)) w)
         | Inl e \<Rightarrow> (Some e, w)
         | Inr to \<Rightarrow>
             if \<not> sftp_lexists sf path then (None, w)
             else if sftp_isfile sf path then
               (let source_file = basename path;
                    source_dir = dirname path
                in case sftp_cwd sf source_dir of
                     Some e \<Rightarrow> (None, entry_fail entry (FailDownloadFile path e) w)
                   | None \<Rightarrow>
                       (case download_file ev source_file to sf delete_origin w of
                          (Some e, w') \<Rightarrow> (None, entry_fail entry (FailDownloadFile path e) w')
                        | (None, w') \<Rightarrow> (None, w')))
             else if sftp_isdir sf path then
               (let base_path = normpath (path_join path [''..'']);
                    dir_name = basename path
                in case (case sftp_cwd sf base_path of
                           Some e \<Rightarrow> (Some e, w)
                         | None \<Rightarrow>
                             walktree sf dir_name
                               (\<lambda>p. download_file ev p to sf delete_origin)
                               handle_dir handle_unknown recursive w) of
                     (Some e, w') \<Rightarrow> (None, entry_fail entry (FailDownloadDir path e) w')
                   | (None, w') \<Rightarrow>
                       if delete_origin then remove_dir sf path w' else (None, w'))
             else (None, w))"

text \<open>
  \<^verbatim>\<open>itertools.groupby\<close>: runs of consecutive elements with equal keys, each with its key.
\<close>

function groupby :: "('a \<Rightarrow> 'k) \<Rightarrow> 'a list \<Rightarrow> ('k \<times> 'a list) list" where
  "groupby key [] = []"
| "groupby key (x # xs) =
     (key x, x # takeWhile (\<lambda>y. key y = key x) xs)
       # groupby key (dropWhile (\<lambda>y. key y = key x) xs)"
  by pat_completeness auto
termination
  by (relation "measure (\<lambda>(key, xs). length xs)")
     (auto simp: le_imp_less_Suc length_dropWhile_le)

text \<open>The loop over the entries of one group, with or without a session.\<close>

fun download_group ::
  "env \<Rightarrow> config \<Rightarrow> sftp option \<Rightarrow> fail_reason \<Rightarrow> Entry list \<Rightarrow> world \<Rightarrow> exn option \<times> world" where
  "download_group ev cfg sftp error_message [] w = (None, w)"
| "download_group ev cfg sftp error_message (entry # entries) w =
     (case sftp of
        Some sf \<Rightarrow>
          (case download_entry ev entry cfg sf w of
             (Some e, w') \<Rightarrow> (Some e, w')
           | (None, w') \<Rightarrow> download_group ev cfg sftp error_message entries w')
      | None \<Rightarrow>
          download_group ev cfg sftp error_message entries (entry_fail entry error_message w))"

text \<open>
  The loop over the groups: a group whose key is \<^verbatim>\<open>None\<close> is passed over. The
  variable \<^verbatim>\<open>error_message\<close> is \<^verbatim>\<open>None\<close> unless connecting raised.
  \<^verbatim>\<open>groupby\<close> is lazy: it computes the key of an entry when the loop over the group
  before it asks for the next entry. A key is therefore the identity or the exception
  that \<^verbatim>\<open>get_sftp_config\<close> raises, and that exception leaves the run where the entry
  is reached: at the start of the run, after a group that was passed over, or inside
  the loop over the entries of the group before it, whose session is then not closed.
\<close>

fun next_key_error :: "((exn + 'k) \<times> 'a list) list \<Rightarrow> exn option" where
  "next_key_error [] = None"
| "next_key_error ((Inl e, entries) # groups) = Some e"
| "next_key_error ((Inr k, entries) # groups) = None"

fun download_groups ::
  "env \<Rightarrow> config \<Rightarrow> ((exn + ConnectionConfig option) \<times> Entry list) list \<Rightarrow> world
   \<Rightarrow> exn option \<times> world" where
  "download_groups ev cfg [] w = (None, w)"
| "download_groups ev cfg ((Inl e, entries) # groups) w = (Some e, w)"
| "download_groups ev cfg ((Inr None, entries) # groups) w = download_groups ev cfg groups w"
| "download_groups ev cfg ((Inr (Some sftp_config), entries) # groups) w =
     (case sftp_connect ev sftp_config w of
        (Inl e, w1) \<Rightarrow>
          (case download_group ev cfg None (FailConnect (host sftp_config) e) entries w1 of
             (Some e', w2) \<Rightarrow> (Some e', w2)
           | (None, w2) \<Rightarrow> download_groups ev cfg groups w2)
      | (Inr sftp, w1) \<Rightarrow>
          (case download_group ev cfg sftp FailNoReason entries w1 of
             (Some e', w2) \<Rightarrow> (Some e', w2)
           | (None, w2) \<Rightarrow>
               (case next_key_error groups of
                  Some e' \<Rightarrow> (Some e', w2)
                | None \<Rightarrow>
                    download_groups ev cfg groups
                      (if sftp \<noteq> None then sftp_close w2 else w2))))"

definition on_task_download :: "env \<Rightarrow> Entry list \<Rightarrow> config \<Rightarrow> world \<Rightarrow> exn option \<times> world" where
  "on_task_download ev accepted cfg w =
     (case dependency_check ev of
        Some e \<Rightarrow> (Some e, w)
      | None \<Rightarrow> download_groups ev cfg (groupby (get_sftp_config ev) accepted) w)"

section \<open>Uploading\<close>

text \<open>
  Python's \<^verbatim>\<open>format % args\<close> for formats whose only conversion is \<^verbatim>\<open>%s\<close>: each
  \<^verbatim>\<open>%s\<close> takes the next argument; too few or too many arguments raise
  \<^verbatim>\<open>TypeError\<close>. A string on the right of \<^verbatim>\<open>%\<close> is a single argument.
\<close>

fun percent_format :: "string \<Rightarrow> string list \<Rightarrow> exn + string" where
  "percent_format [] [] = Inr []"
| "percent_format [] (a # args) =
     Inl (TypeError ''not all arguments converted during string formatting'')"
| "percent_format [c] args =
     (if c = CHR ''%'' then Inl (OtherError ''incomplete format'')
      else map_sum id ((#) c) (percent_format [] args))"
| "percent_format (c # d # cs) args =
     (if c = CHR ''%'' then
        (if d = CHR ''s'' then
           (case args of
              [] \<Rightarrow> Inl (TypeError ''not enough arguments for format string'')
            | a # rest \<Rightarrow> map_sum id ((@) a) (percent_format cs rest))
         else Inl (OtherError ''unsupported format character''))
      else map_sum id ((#) c) (percent_format (d # cs) args))"

text \<open>
  The message of a log call, as the logger builds it with \<^verbatim>\<open>str.format\<close>: each
  \<^verbatim>\<open>{}\<close> takes the next argument, and a \<^verbatim>\<open>{}\<close> with no argument left raises
  \<^verbatim>\<open>IndexError\<close>.
\<close>

fun brace_format :: "string \<Rightarrow> string list \<Rightarrow> exn + string" where
  "brace_format [] args = Inr []"
| "brace_format [c] args = Inr [c]"
| "brace_format (c # d # cs) args =
     (if c = CHR ''{'' \<and> d = CHR ''}'' then
        (case args of
           [] \<Rightarrow> Inl (IndexError ''Replacement index out of range for positional args tuple'')
         | a # rest \<Rightarrow> map_sum id ((@) a) (brace_format cs rest))
      else map_sum id ((#) c) (brace_format (d # cs) args))"

definition prepare_config_upload :: "config \<Rightarrow> config" where
  "prepare_config_upload cfg = cfg"

text \<open>
  \<^verbatim>\<open>SftpUpload.handle_entry\<close>. The handler of \<^verbatim>\<open>IOError\<close> first logs with the
  format \<^verbatim>\<open>'Remote directory does not exist: {} ({})'\<close> and the one argument
  \<^verbatim>\<open>to\<close>, then builds \<^verbatim>\<open>'Remote directory does not exist: %s (%s)' % to\<close> before it
  calls \<^verbatim>\<open>entry.fail\<close>. Every other log call and every other \<^verbatim>\<open>%\<close> of the module has
  as many arguments as its format has places; those messages are kept as the reason's
  arguments. A failure of \<^verbatim>\<open>os.remove\<close> is caught and logged.
\<close>

definition handle_entry ::
  "env \<Rightarrow> Entry \<Rightarrow> sftp \<Rightarrow> config \<Rightarrow> string \<Rightarrow> world \<Rightarrow> exn option \<times> world" where
  "handle_entry ev entry sf cfg url_prefix w =
     (case location entry of
        None \<Rightarrow> (Some (KeyError ''location''), w)
      | Some loc \<Rightarrow>
          let filename = basename loc
          in case (if truthy (cfg_to cfg)
                   then map_sum id Some (render_from_entry ev (opt_str (cfg_to cfg)) entry)
                   else Inr (cfg_to cfg)) of
               Inl (RenderError m) \<Rightarrow> (None, entry_fail entry (FailRender (RenderError m)) w)
             | Inl e \<Rightarrow> (Some e, w)
             | Inr None \<Rightarrow>
                 (Some (TypeError ''expected str, bytes or os.PathLike object, not NoneType''), w)
             | Inr (Some to) \<Rightarrow>
                 let destination = path_join to [filename];
                     destination_url = urljoin ev url_prefix destination
                 in if loc \<notin> local_fs w then (None, w)
                    else
                      case (if \<not> sftp_lexists sf to then sftp_makedirs sf to else None) of
                        Some e \<Rightarrow> (None, entry_fail entry (FailMakedirs e) w)
                      | None \<Rightarrow>
                          if \<not> sftp_isdir sf to
                          then (None, entry_fail entry (FailNotADirectory to) w)
                          else
                            let w1 = w\<lparr>uploads := uploads w @ [(loc, destination)]\<rparr>
                            in case sftp_put sf loc destination of
                                 Some e \<Rightarrow>
                                   if is_IOError e
                                   then (case brace_format
                                                ''Remote directory does not exist: {} ({})'' [to] of
                                           Inl e' \<Rightarrow> (Some e', w1)
                                         | Inr logged \<Rightarrow>
                                        (case percent_format
                                                ''Remote directory does not exist: %s (%s)'' [to] of
                                           Inl e' \<Rightarrow> (Some e', w1)
                                         | Inr msg \<Rightarrow>
                                             (None, entry_fail entry (FailRemoteDirMissing msg) w1)))
                                   else (None, entry_fail entry (FailUpload loc e) w1)
                               | None \<Rightarrow>
                                   if cfg_delete_origin cfg
                                   then (case os_remove ev loc of
                                           None \<Rightarrow> (None, w1\<lparr>local_fs := local_fs w1 - {loc}\<rparr>)
                                         | Some e \<Rightarrow> (None, w1))
                                   else (None, w1))"

text \<open>The loop of \<^verbatim>\<open>on_task_output\<close> over the accepted entries.\<close>

fun upload_entries ::
  "env \<Rightarrow> sftp option \<Rightarrow> config \<Rightarrow> string \<Rightarrow> Entry list \<Rightarrow> world \<Rightarrow> exn option \<times> world" where
  "upload_entries ev sftp cfg url_prefix [] w = (None, w)"
| "upload_entries ev sftp cfg url_prefix (entry # entries) w =
     (case sftp of
        Some sf \<Rightarrow>
          (case handle_entry ev entry sf cfg url_prefix w of
             (Some e, w') \<Rightarrow> (Some e, w')
           | (None, w') \<Rightarrow> upload_entries ev sftp cfg url_prefix entries w')
      | None \<Rightarrow>
          upload_entries ev sftp cfg url_prefix entries
            (entry_fail entry (FailNoConnection entry) w))"

definition on_task_output :: "env \<Rightarrow> Entry list \<Rightarrow> config \<Rightarrow> world \<Rightarrow> exn option \<times> world" where
  "on_task_output ev accepted config0 w =
     (let cfg = prepare_config_upload config0
      in case sftp_from_config ev cfg w of
           (Inl e, w') \<Rightarrow> (Some e, w')
         | (Inr sftp, w') \<Rightarrow> upload_entries ev sftp cfg (sftp_prefix cfg) accepted w')"

section \<open>Example inputs\<close>

text \<open>A session that answers every query with nothing, and a world in which nothing
  has happened yet.\<close>

definition null_sftp :: sftp where
  "null_sftp = \<lparr>timeout = None, sftp_set_timeout = None, sftp_lexists = (\<lambda>p. False), sftp_exists = (\<lambda>p. False),
     sftp_isfile = (\<lambda>p. False), sftp_isdir = (\<lambda>p. False), sftp_cwd = (\<lambda>p. None),
     sftp_get = (\<lambda>p d. GetOk), sftp_put = (\<lambda>l r. None), sftp_remove = (\<lambda>p. None),
     sftp_rmdir = (\<lambda>p. None), sftp_makedirs = (\<lambda>p. None), sftp_listdir = (\<lambda>p. Inr []),
     sftp_tree = (\<lambda>p. Inr []), sftp_lstat = (\<lambda>p. Inr 0), sftp_normalize = (\<lambda>p. Inr p)\<rparr>"

definition null_url :: parsed_url where
  "null_url = \<lparr>url_scheme = [], url_hostname = None, url_username = None,
     url_password = None, url_port = Inr None, url_path = []\<rparr>"

definition empty_world :: world where
  "empty_world = \<lparr>attempts = 0, sleeps = [], opened = 0, closed = 0, local_fs = {},
     gets = [], uploads = [], remote_removed = [], remote_rmdirs = [], failures = []\<rparr>"

definition example_conf :: ConnectionConfig where
  "example_conf = \<lparr>host = Some ''example.com'', port = 22, username = Some ''u'',
     password = None, private_key = None, private_key_pass = None\<rparr>"

text \<open>What \<^verbatim>\<open>urlparse\<close> returns on the URLs of the examples.\<close>

definition example_urlparse :: "string \<Rightarrow> exn + parsed_url" where
  "example_urlparse u =
     (if take 16 u = ''sftp://a.example''
      then Inr (null_url\<lparr>url_scheme := ''sftp'', url_hostname := Some ''a.example'',
                          url_path := drop 16 u\<rparr>)
      else if take 16 u = ''sftp://b.example''
      then Inr (null_url\<lparr>url_scheme := ''sftp'', url_hostname := Some ''b.example'',
                          url_path := drop 16 u\<rparr>)
      else if take 16 u = ''http://a.example''
      then Inr (null_url\<lparr>url_scheme := ''http'', url_hostname := Some ''a.example'',
                          url_path := drop 16 u\<rparr>)
      else Inr null_url)"

text \<open>An environment in which every connection attempt is refused.\<close>

definition refusing_env :: env where
  "refusing_env = \<lparr>Connection = (\<lambda>conf n. Inl (IOError ''refused'')),
     urlparse = example_urlparse, unquote = (\<lambda>s. s), quote = (\<lambda>s. s),
     urljoin = (\<lambda>a b. a @ b), render_from_entry = (\<lambda>t e. Inr t),
     os_makedirs = (\<lambda>p. None), os_remove = (\<lambda>p. None), pysftp_present = True\<rparr>"

text \<open>An environment in which every connection attempt gives the session \<open>sf\<close>.\<close>

definition serving_env :: "sftp \<Rightarrow> env" where
  "serving_env sf = \<lparr>Connection = (\<lambda>conf n. Inr sf),
     urlparse = example_urlparse, unquote = (\<lambda>s. s), quote = (\<lambda>s. s),
     urljoin = (\<lambda>a b. a @ b), render_from_entry = (\<lambda>t e. Inr t),
     os_makedirs = (\<lambda>p. None), os_remove = (\<lambda>p. None), pysftp_present = True\<rparr>"

text \<open>An environment in which the local file system refuses to remove files.\<close>

definition locked_env :: env where
  "locked_env = \<lparr>Connection = (\<lambda>conf n. Inl (IOError ''refused'')),
     urlparse = example_urlparse, unquote = (\<lambda>s. s), quote = (\<lambda>s. s),
     urljoin = (\<lambda>a b. a @ b), render_from_entry = (\<lambda>t e. Inr t),
     os_makedirs = (\<lambda>p. None), os_remove = (\<lambda>p. Some (IOError ''Permission denied'')),
     pysftp_present = True\<rparr>"

text \<open>A session whose \<^verbatim>\<open>get\<close> breaks off and leaves a partial file.\<close>

definition breaking_sftp :: sftp where
  "breaking_sftp = null_sftp\<lparr>sftp_get := (\<lambda>p d. GetFail (IOError ''connection lost'') True)\<rparr>"

definition example_entry :: "string \<Rightarrow> Entry" where
  "example_entry u = \<lparr>title = u, url = u, location = None, content_size = None,
     entry_private_key = None, entry_private_key_pass = None\<rparr>"

definition download_cfg :: config where
  "download_cfg = \<lparr>cfg_host = [], cfg_port = 22, cfg_username = [], cfg_password = None,
     cfg_private_key = None, cfg_private_key_pass = None, cfg_files_only = True,
     cfg_recursive = True, cfg_get_size = True, cfg_delete_origin = True,
     cfg_dirs = None, cfg_to = Some ''/dl''\<rparr>"

text \<open>The local destination that \<^verbatim>\<open>download_file\<close> computes for a remote path.\<close>

definition local_destination :: "string \<Rightarrow> string \<Rightarrow> string" where
  "local_destination dest path =
     path_join dest [path_join (fst (path_split path)) [snd (path_split path)]]"

text \<open>The identities of the two hosts of the examples.\<close>

definition identity_A :: ConnectionConfig where
  "identity_A = \<lparr>host = Some ''a.example'', port = 22, username = None, password = None,
     private_key = None, private_key_pass = None\<rparr>"

definition identity_B :: ConnectionConfig where
  "identity_B = identity_A\<lparr>host := Some ''b.example''\<rparr>"

text \<open>The members of the groups that have a key, which are the groups the download
  loop serves.\<close>

fun keyed :: "(exn + 'k option) \<Rightarrow> bool" where
  "keyed (Inr (Some k)) = True"
| "keyed other = False"

definition served :: "((exn + 'k option) \<times> 'a list) list \<Rightarrow> 'a set" where
  "served groups = (\<Union>g \<in> set groups. if keyed (fst g) then set (snd g) else {})"

text \<open>
  The path names of all nodes below a directory, of every kind, in the order of the
  walk; those of the regular files among them; and whether the walk meets no node at
  which it raises.
\<close>

fun node_paths :: "string \<Rightarrow> rnode \<Rightarrow> string list"
and nodes_paths :: "string \<Rightarrow> rnode list \<Rightarrow> string list" where
  "node_paths dir (RFile name) = [path_join dir [name]]"
| "node_paths dir (RDir name children) =
     path_join dir [name] # nodes_paths (path_join dir [name]) children"
| "node_paths dir (RUnknown name) = [path_join dir [name]]"
| "node_paths dir (RError name e) = []"
| "nodes_paths dir [] = []"
| "nodes_paths dir (n # ns) = node_paths dir n @ nodes_paths dir ns"

fun node_file_paths :: "string \<Rightarrow> rnode \<Rightarrow> string list"
and nodes_file_paths :: "string \<Rightarrow> rnode list \<Rightarrow> string list" where
  "node_file_paths dir (RFile name) = [path_join dir [name]]"
| "node_file_paths dir (RDir name children) = nodes_file_paths (path_join dir [name]) children"
| "node_file_paths dir (RUnknown name) = []"
| "node_file_paths dir (RError name e) = []"
| "nodes_file_paths dir [] = []"
| "nodes_file_paths dir (n # ns) = node_file_paths dir n @ nodes_file_paths dir ns"

fun node_ok :: "rnode \<Rightarrow> bool"
and nodes_ok :: "rnode list \<Rightarrow> bool" where
  "node_ok (RFile name) = True"
| "node_ok (RDir name children) = nodes_ok children"
| "node_ok (RUnknown name) = True"
| "node_ok (RError name e) = False"
| "nodes_ok [] = True"
| "nodes_ok (n # ns) = (node_ok n \<and> nodes_ok ns)"

text \<open>The size that \<^verbatim>\<open>lstat\<close> reports for a path, where it reports one.\<close>

definition lstat_size :: "sftp \<Rightarrow> string \<Rightarrow> int" where
  "lstat_size sf p = (case sftp_lstat sf p of Inl e \<Rightarrow> 0 | Inr n \<Rightarrow> n)"

text \<open>
  Remote trees for the examples: \<^verbatim>\<open>/data\<close> with three files of sizes 10, 20 and 30;
  \<^verbatim>\<open>/empty\<close> with nothing in it; \<^verbatim>\<open>/mixed\<close> with a file of size 10 and an empty
  subdirectory whose own \<^verbatim>\<open>lstat\<close> size is 4096.
\<close>

definition sized_sftp :: sftp where
  "sized_sftp = null_sftp\<lparr>
     sftp_tree := (\<lambda>p. if p = ''/data'' then Inr [RFile ''a'', RFile ''b'', RFile ''c'']
                        else if p = ''/mixed'' then Inr [RFile ''a'', RDir ''sub'' []]
                        else if p = ''/empty'' then Inr []
                        else Inl (IOError ''No such file'')),
     sftp_lstat := (\<lambda>p. if p = ''/data/a'' then Inr 10
                         else if p = ''/data/b'' then Inr 20
                         else if p = ''/data/c'' then Inr 30
                         else if p = ''/mixed/a'' then Inr 10
                         else if p = ''/mixed/sub'' then Inr 4096
                         else Inl (IOError ''No such file''))\<rparr>"

text \<open>A listing configuration that asks for sizes and for directories as well as files.\<close>

definition list_cfg :: config where
  "list_cfg = \<lparr>cfg_host = ''a.example'', cfg_port = 22, cfg_username = ''u'',
     cfg_password = None, cfg_private_key = None, cfg_private_key_pass = None,
     cfg_files_only = False, cfg_recursive = False, cfg_get_size = True,
     cfg_delete_origin = False, cfg_dirs = None, cfg_to = None\<rparr>"

text \<open>A session on which every listing raises an exception that is not an
  \<^verbatim>\<open>IOError\<close>, as when the server drops the connection.\<close>

definition dropping_sftp :: sftp where
  "dropping_sftp = null_sftp\<lparr>sftp_tree := (\<lambda>p. Inl (OtherError ''Server connection dropped''))\<rparr>"

text \<open>A listing of two roots, the first of which does not exist.\<close>

definition two_roots_cfg :: config where
  "two_roots_cfg = list_cfg\<lparr>cfg_dirs := Some (ManyDirs [''/nowhere'', ''/data''])\<rparr>"

text \<open>The reason given by the branch of \<^verbatim>\<open>on_task_output\<close> that has no session.\<close>

fun no_connection :: "fail_reason \<Rightarrow> bool" where
  "no_connection (FailNoConnection entry) = True"
| "no_connection reason = False"

text \<open>
  An upload of the local file \<^verbatim>\<open>/local/a.txt\<close> to the remote directory \<^verbatim>\<open>/up\<close>, on a
  session whose \<^verbatim>\<open>put\<close> raises the given exception.
\<close>

definition upload_cfg :: config where
  "upload_cfg = \<lparr>cfg_host = ''a.example'', cfg_port = 22, cfg_username = ''u'',
     cfg_password = None, cfg_private_key = None, cfg_private_key_pass = None,
     cfg_files_only = True, cfg_recursive = False, cfg_get_size = True,
     cfg_delete_origin = False, cfg_dirs = None, cfg_to = Some ''/up''\<rparr>"

definition upload_entry :: Entry where
  "upload_entry = \<lparr>title = ''a.txt'', url = ''file:///local/a.txt'',
     location = Some ''/local/a.txt'', content_size = None,
     entry_private_key = None, entry_private_key_pass = None\<rparr>"

definition upload_world :: world where
  "upload_world = empty_world\<lparr>local_fs := {''/local/a.txt''}\<rparr>"

definition put_raises :: "exn \<Rightarrow> sftp" where
  "put_raises e = null_sftp\<lparr>sftp_lexists := (\<lambda>p. True), sftp_isdir := (\<lambda>p. True),
     sftp_put := (\<lambda>l r. Some e)\<rparr>"

section \<open>Connecting: retries and waits\<close>

text \<open>
  C1 (counterexample). Against a host that refuses every attempt, \<^verbatim>\<open>sftp_connect\<close>
  sleeps 15, 20 and 25 and makes four attempts: it does not stop after the waits 15 and
  20 and three attempts.
\<close>

theorem sftp_connect_three_attempts_counterexample:
  "sleeps (snd (sftp_connect refusing_env example_conf empty_world)) = [15, 20, 25]
   \<and> attempts (snd (sftp_connect refusing_env example_conf empty_world)) = 4
   \<and> \<not> (sleeps (snd (sftp_connect refusing_env example_conf empty_world)) = [15, 20]
         \<and> attempts (snd (sftp_connect refusing_env example_conf empty_world)) = 3)"
  by (simp add: sftp_connect_def CONNECT_TRIES_def RETRY_INTERVAL_def RETRY_STEP_def
      eval_nat_numeral refusing_env_def empty_world_def)

text \<open>
  C1 (amended). When every attempt to open a connection fails, \<^verbatim>\<open>sftp_connect\<close> makes
  four attempts, sleeps exactly 15, 20 and 25 between them, and then raises the error
  of the fourth attempt without a further sleep and without opening a session.
\<close>

theorem sftp_connect_all_attempts_fail:
  assumes "\<And>n. Connection ev conf n = Inl (err n)"
  shows "sftp_connect ev conf w =
     (Inl (err (attempts w + 3)),
      w\<lparr>attempts := attempts w + 4, sleeps := sleeps w @ [15, 20, 25]\<rparr>)"
  using assms
  by (simp add: sftp_connect_def CONNECT_TRIES_def RETRY_INTERVAL_def RETRY_STEP_def
      eval_nat_numeral)

theorem sftp_connect_all_attempts_fail_witness:
  "(\<forall>n. Connection refusing_env example_conf n = Inl (IOError ''refused'')) \<and>
   sftp_connect refusing_env example_conf empty_world =
     (Inl (IOError ''refused''), empty_world\<lparr>attempts := 4, sleeps := [15, 20, 25]\<rparr>)"
  using sftp_connect_all_attempts_fail
          [of refusing_env example_conf "\<lambda>n. IOError ''refused''" empty_world]
  by (simp add: refusing_env_def empty_world_def)

section \<open>Downloading one file\<close>

lemma remove_dir_local_fs:
  "remove_dir sf p w = (r, w') \<Longrightarrow> local_fs w' = local_fs w \<and> gets w' = gets w"
  by (auto simp: remove_dir_def split: if_splits sum.splits option.splits)

lemma download_file_skip:
  "local_destination dest path \<in> local_fs w \<Longrightarrow>
   download_file ev path (Some dest) sf delete_origin w = (None, w)"
  by (simp add: download_file_def local_destination_def Let_def)

lemma download_file_success_dest:
  assumes "download_file ev path (Some dest) sf delete_origin w = (None, w1)"
  shows "local_destination dest path \<in> local_fs w1 \<and> length (gets w1) \<le> length (gets w) + 1"
  using assms
  by (auto simp: download_file_def local_destination_def Let_def
      split: if_splits option.splits get_result.splits dest: remove_dir_local_fs)

lemma local_destination_example: "local_destination ''/dl'' ''a.txt'' = ''/dl/a.txt''"
  by (simp add: local_destination_def path_join_def path_split_def join2_def
      endswith_sep_def is_sep_def rstrip_sep_def)

lemma dirname_example: "dirname ''/dl/a.txt'' = ''/dl''"
  by (simp add: dirname_def path_split_def is_sep_def rstrip_sep_def)

text \<open>
  C2. When the local destination computed for a remote path already exists,
  \<^verbatim>\<open>download_file\<close> returns normally and leaves the world as it was: no call of
  \<^verbatim>\<open>sftp.get\<close>, no remote removal, whatever \<^verbatim>\<open>delete_origin\<close> says. Hence a second
  call after a call that returned normally changes nothing, and the first call made at
  most one call of \<^verbatim>\<open>sftp.get\<close>.
\<close>

theorem download_file_idempotent:
  "(local_destination dest path \<in> local_fs w \<longrightarrow>
      download_file ev path (Some dest) sf delete_origin w = (None, w)) \<and>
   (download_file ev path (Some dest) sf delete_origin w = (None, w1) \<longrightarrow>
      download_file ev path (Some dest) sf delete_origin w1 = (None, w1) \<and>
      length (gets w1) \<le> length (gets w) + 1)"
  using download_file_skip download_file_success_dest by blast

theorem download_file_idempotent_witness:
  "''/dl/a.txt'' \<in> local_fs (empty_world\<lparr>local_fs := {''/dl/a.txt''}\<rparr>) \<and>
   download_file (serving_env null_sftp) ''a.txt'' (Some ''/dl'') null_sftp True
       (empty_world\<lparr>local_fs := {''/dl/a.txt''}\<rparr>)
     = (None, empty_world\<lparr>local_fs := {''/dl/a.txt''}\<rparr>) \<and>
   download_file (serving_env null_sftp) ''a.txt'' (Some ''/dl'') null_sftp True empty_world
     = (None, empty_world\<lparr>local_fs := {''/dl/a.txt'', ''/dl''},
                           gets := [(''a.txt'', ''/dl/a.txt'')],
                           remote_removed := [''a.txt'']\<rparr>) \<and>
   download_file (serving_env null_sftp) ''a.txt'' (Some ''/dl'') null_sftp True
       (empty_world\<lparr>local_fs := {''/dl/a.txt'', ''/dl''},
                     gets := [(''a.txt'', ''/dl/a.txt'')],
                     remote_removed := [''a.txt'']\<rparr>)
     = (None, empty_world\<lparr>local_fs := {''/dl/a.txt'', ''/dl''},
                           gets := [(''a.txt'', ''/dl/a.txt'')],
                           remote_removed := [''a.txt'']\<rparr>)"
proof -
  have first: "download_file (serving_env null_sftp) ''a.txt'' (Some ''/dl'') null_sftp True
       empty_world
     = (None, empty_world\<lparr>local_fs := {''/dl/a.txt'', ''/dl''},
                           gets := [(''a.txt'', ''/dl/a.txt'')],
                           remote_removed := [''a.txt'']\<rparr>)"
    using local_destination_example dirname_example
    by (simp add: download_file_def local_destination_def Let_def empty_world_def
        serving_env_def null_sftp_def remove_dir_def)
  show ?thesis
    using first
      download_file_idempotent [of "''/dl''" "''a.txt''"
        "empty_world\<lparr>local_fs := {''/dl/a.txt''}\<rparr>" "serving_env null_sftp" null_sftp True]
      download_file_idempotent [of "''/dl''" "''a.txt''" empty_world
        "serving_env null_sftp" null_sftp True
        "empty_world\<lparr>local_fs := {''/dl/a.txt'', ''/dl''},
                       gets := [(''a.txt'', ''/dl/a.txt'')],
                       remote_removed := [''a.txt'']\<rparr>"]
    by (simp add: local_destination_example)
qed

text \<open>
  C3 (counterexample). \<^verbatim>\<open>sftp.get\<close> breaks off and leaves a partial file, and the
  local file system refuses the removal: \<^verbatim>\<open>download_file\<close> raises the exception of
  \<^verbatim>\<open>os.remove\<close> and the partial file is still at the destination.
\<close>

theorem download_file_partial_left_counterexample:
  "sftp_get breaking_sftp ''a.txt'' ''/dl/a.txt'' = GetFail (IOError ''connection lost'') True \<and>
   download_file locked_env ''a.txt'' (Some ''/dl'') breaking_sftp False empty_world
     = (Some (IOError ''Permission denied''),
        empty_world\<lparr>local_fs := {''/dl/a.txt'', ''/dl''},
                      gets := [(''a.txt'', ''/dl/a.txt'')]\<rparr>) \<and>
   ''/dl/a.txt'' \<in> local_fs (snd (download_file locked_env ''a.txt'' (Some ''/dl'')
       breaking_sftp False empty_world))"
  using local_destination_example dirname_example
  by (simp add: download_file_def local_destination_def Let_def empty_world_def locked_env_def
      breaking_sftp_def null_sftp_def)

text \<open>
  C3 (amended). When the destination does not exist yet, its directory exists or can
  be made, and \<^verbatim>\<open>sftp.get\<close> raises after writing part of the destination,
  \<^verbatim>\<open>download_file\<close> calls \<^verbatim>\<open>os.remove\<close> on the destination. If the removal returns
  normally, the exception of \<^verbatim>\<open>sftp.get\<close> is raised and no file is left at the
  destination; if the removal raises, its exception is raised and the partial file
  stays.
\<close>

theorem download_file_partial_cleanup:
  assumes "local_destination dest path \<notin> local_fs w"
    and "dirname (local_destination dest path) \<in> local_fs w
         \<or> os_makedirs ev (dirname (local_destination dest path)) = None"
    and "sftp_get sf path (local_destination dest path) = GetFail e True"
  shows "download_file ev path (Some dest) sf delete_origin w =
           (case os_remove ev (local_destination dest path) of
              None \<Rightarrow>
                (Some e,
                 w\<lparr>local_fs := insert (dirname (local_destination dest path)) (local_fs w)
                                  - {local_destination dest path},
                    gets := gets w @ [(path, local_destination dest path)]\<rparr>)
            | Some e' \<Rightarrow>
                (Some e',
                 w\<lparr>local_fs := insert (local_destination dest path)
                                  (insert (dirname (local_destination dest path)) (local_fs w)),
                    gets := gets w @ [(path, local_destination dest path)]\<rparr>))
         \<and> (local_destination dest path \<in>
               local_fs (snd (download_file ev path (Some dest) sf delete_origin w))
             \<longleftrightarrow> os_remove ev (local_destination dest path) \<noteq> None)"
  using assms
  by (auto simp: download_file_def local_destination_def Let_def split: option.splits)

theorem download_file_partial_cleanup_witness:
  "local_destination ''/dl'' ''a.txt'' \<notin> local_fs empty_world \<and>
   os_makedirs (serving_env breaking_sftp) (dirname (local_destination ''/dl'' ''a.txt'')) = None \<and>
   sftp_get breaking_sftp ''a.txt'' (local_destination ''/dl'' ''a.txt'')
     = GetFail (IOError ''connection lost'') True \<and>
   os_remove (serving_env breaking_sftp) ''/dl/a.txt'' = None \<and>
   download_file (serving_env breaking_sftp) ''a.txt'' (Some ''/dl'') breaking_sftp False
       empty_world
     = (Some (IOError ''connection lost''),
        empty_world\<lparr>local_fs := {''/dl''}, gets := [(''a.txt'', ''/dl/a.txt'')]\<rparr>) \<and>
   ''/dl/a.txt'' \<notin> local_fs (snd (download_file (serving_env breaking_sftp) ''a.txt''
       (Some ''/dl'') breaking_sftp False empty_world))"
  using download_file_partial_cleanup [of "''/dl''" "''a.txt''" empty_world
          "serving_env breaking_sftp" breaking_sftp "IOError ''connection lost''" False]
  by (simp add: local_destination_example dirname_example empty_world_def serving_env_def
      breaking_sftp_def null_sftp_def)

section \<open>Grouping by connection identity\<close>

lemma groupby_concat: "concat (map snd (groupby key xs)) = xs"
  by (induction key xs rule: groupby.induct) simp_all

lemma groupby_runs: 
  "list_all (\<lambda>(k, run). run \<noteq> [] \<and> list_all (\<lambda>x. key x = k) run) (groupby key xs)"
proof (induction key xs rule: groupby.induct)
  case (1 key)
  then show ?case by simp
next
  case (2 key x xs)
  have "list_all (\<lambda>y. key y = key x) (takeWhile (\<lambda>y. key y = key x) xs)"
    by (simp add: list_all_iff) (meson set_takeWhileD)
  with 2 show ?case by simp
qed

lemma groupby_hd_key: "groupby key xs \<noteq> [] \<Longrightarrow> fst (hd (groupby key xs)) = key (hd xs)"
  by (cases xs) simp_all

lemma groupby_Nil_iff: "groupby key xs = [] \<longleftrightarrow> xs = []"
  by (cases xs) simp_all

lemma groupby_distinct_adj: "distinct_adj (map fst (groupby key xs))"
proof (induction key xs rule: groupby.induct)
  case (1 key)
  then show ?case by simp
next
  case (2 key x xs)
  let ?rest = "dropWhile (\<lambda>y. key y = key x) xs"
  show ?case
  proof (cases "?rest = []")
    case True
    show ?thesis unfolding groupby.simps(2) True by simp
  next
    case False
    then have "key (hd ?rest) \<noteq> key x"
      using hd_dropWhile [of "\<lambda>y. key y = key x" xs] by simp
    moreover have "groupby key ?rest \<noteq> []" using False by (simp add: groupby_Nil_iff)
    ultimately show ?thesis
      using 2 False
      by (simp add: distinct_adj_Cons groupby_hd_key hd_map)
  qed
qed


lemma get_sftp_config_examples:
  "get_sftp_config (serving_env sf) (example_entry (''sftp://a.example'' @ p))
     = Inr (Some identity_A)"
  "get_sftp_config (serving_env sf) (example_entry (''sftp://b.example'' @ p))
     = Inr (Some identity_B)"
  "get_sftp_config (serving_env sf) (example_entry (''http://a.example'' @ p)) = Inr None"
  by (simp_all add: get_sftp_config_def serving_env_def example_entry_def example_urlparse_def
      null_url_def identity_A_def identity_B_def Let_def)

text \<open>
  C4. Grouping by connection identity cuts the input into runs of consecutive entries:
  the runs put together are the input in its order; every run is non-empty and all its
  entries have the run's key; neighbouring runs have different keys, so a run is never
  split and equal identities that are not adjacent stay apart. On entries with the
  identities A, A, B, A it yields the three groups [A, A], [B], [A].
\<close>

theorem groupby_consecutive_runs:
  "concat (map snd (groupby key xs)) = xs \<and>
   list_all (\<lambda>(k, run). run \<noteq> [] \<and> list_all (\<lambda>x. key x = k) run) (groupby key xs) \<and>
   distinct_adj (map fst (groupby key xs)) \<and>
   groupby (get_sftp_config (serving_env null_sftp))
      [example_entry ''sftp://a.example/1'', example_entry ''sftp://a.example/2'',
       example_entry ''sftp://b.example/3'', example_entry ''sftp://a.example/4'']
     = [(Inr (Some identity_A),
         [example_entry ''sftp://a.example/1'', example_entry ''sftp://a.example/2'']),
        (Inr (Some identity_B), [example_entry ''sftp://b.example/3'']),
        (Inr (Some identity_A), [example_entry ''sftp://a.example/4''])]"
proof -
  have ne: "identity_B \<noteq> identity_A"
    by (simp add: identity_A_def identity_B_def)
  have ex: "groupby (get_sftp_config (serving_env null_sftp))
      [example_entry ''sftp://a.example/1'', example_entry ''sftp://a.example/2'',
       example_entry ''sftp://b.example/3'', example_entry ''sftp://a.example/4'']
     = [(Inr (Some identity_A),
         [example_entry ''sftp://a.example/1'', example_entry ''sftp://a.example/2'']),
        (Inr (Some identity_B), [example_entry ''sftp://b.example/3'']),
        (Inr (Some identity_A), [example_entry ''sftp://a.example/4''])]"
    using ne get_sftp_config_examples(1) [of null_sftp "''/1''"]
      get_sftp_config_examples(1) [of null_sftp "''/2''"]
      get_sftp_config_examples(2) [of null_sftp "''/3''"]
      get_sftp_config_examples(1) [of null_sftp "''/4''"]
    by (simp add: ne [symmetric])
  show ?thesis
    using ex groupby_concat [of key xs] groupby_runs [of key xs] groupby_distinct_adj [of key xs]
    by blast
qed

section \<open>Failures recorded by a download run\<close>

lemma remove_dir_failures: "failures (snd (remove_dir sf p w)) = failures w"
  by (auto simp: remove_dir_def split: if_splits sum.splits option.splits)

lemma download_file_failures:
  "failures (snd (download_file ev path dest sf d w)) = failures w"
  by (auto simp: download_file_def Let_def remove_dir_failures
      split: if_splits option.splits get_result.splits)

lemma walk_preserves:
  "(\<forall>p s. obs (snd (fcb p s)) = obs s) \<Longrightarrow> (\<forall>p s. obs (snd (dcb p s)) = obs s) \<Longrightarrow>
   (\<forall>p s. obs (snd (ucb p s)) = obs s) \<Longrightarrow>
   obs (snd (walk_node fcb dcb ucb rec dir n s0)) = obs s0"
  "(\<forall>p s. obs (snd (fcb p s)) = obs s) \<Longrightarrow> (\<forall>p s. obs (snd (dcb p s)) = obs s) \<Longrightarrow>
   (\<forall>p s. obs (snd (ucb p s)) = obs s) \<Longrightarrow>
   obs (snd (walk_nodes fcb dcb ucb rec dir ns s0)) = obs s0"
proof (induction fcb dcb ucb rec dir n s0 and fcb dcb ucb rec dir ns s0
    rule: walk_node_walk_nodes.induct)
  case (2 fcb dcb ucb recurse dir name children s)
  obtain r' s' where dc: "dcb (path_join dir [name]) s = (r', s')" by fastforce
  have o1: "obs s' = obs s" using 2(3) dc by (metis snd_conv)
  show ?case
  proof (cases "r' = None \<and> recurse")
    case True
    then have "obs (snd (walk_nodes fcb dcb ucb True (path_join dir [name]) children s')) = obs s'"
      using 2(1) [OF dc [symmetric] _ _ 2(2) 2(3) 2(4)] by simp
    with True dc o1 show ?thesis by simp
  next
    case False
    with dc o1 show ?thesis by (cases r') auto
  qed
next
  case (6 fcb dcb ucb recurse dir n ns s)
  obtain r' s' where wn: "walk_node fcb dcb ucb recurse dir n s = (r', s')" by fastforce
  have o1: "obs s' = obs s" using 6(1) [OF 6(3) 6(4) 6(5)] wn by simp
  show ?case
  proof (cases r')
    case (Some e)
    with wn o1 show ?thesis by simp
  next
    case None
    then have "obs (snd (walk_nodes fcb dcb ucb recurse dir ns s')) = obs s'"
      using 6(2) [OF wn [symmetric] _ 6(3) 6(4) 6(5)] by simp
    with None wn o1 show ?thesis by simp
  qed
qed simp_all

lemma walktree_preserves:
  "(\<forall>p s. obs (snd (fcb p s)) = obs s) \<Longrightarrow> (\<forall>p s. obs (snd (dcb p s)) = obs s) \<Longrightarrow>
   (\<forall>p s. obs (snd (ucb p s)) = obs s) \<Longrightarrow>
   obs (snd (walktree sf root fcb dcb ucb rec s0)) = obs s0"
  by (simp add: walktree_def walk_preserves(2) split: sum.splits)


lemma remove_dir_failuresD: "remove_dir sf p w = (r, w') \<Longrightarrow> failures w' = failures w"
  using remove_dir_failures [of sf p w] by simp

lemma download_file_failuresD:
  "download_file ev path dest sf d w = (r, w') \<Longrightarrow> failures w' = failures w"
  using download_file_failures [of ev path dest sf d w] by simp

lemma walktree_download_failuresD:
  "walktree sf root (\<lambda>p. download_file ev p to sf d) handle_dir handle_unknown rec w = (r, w')
   \<Longrightarrow> failures w' = failures w"
  using walktree_preserves [of failures "\<lambda>p. download_file ev p to sf d" handle_dir
      handle_unknown sf root rec w]
  by (simp add: download_file_failures handle_dir_def handle_unknown_def)

lemma download_entry_failures:
  assumes "download_entry ev entry cfg sf w = (r, w')"
  shows "failures w' = failures w \<or> (\<exists>reason. failures w' = failures w @ [(entry, reason)])"
  using assms unfolding download_entry_def Let_def
  by (auto simp: entry_fail_def
      split: sum.splits exn.splits option.splits prod.splits if_splits
      dest!: download_file_failuresD walktree_download_failuresD remove_dir_failuresD)


lemma sftp_connect_loop_failures:
  "failures (snd (sftp_connect_loop ev conf tries interval w)) = failures w"
  by (induction ev conf tries interval w rule: sftp_connect_loop.induct)
     (simp_all split: sum.splits option.splits)

lemma sftp_connect_failuresD:
  "sftp_connect ev conf w = (r, w') \<Longrightarrow> failures w' = failures w"
  using sftp_connect_loop_failures [of ev conf CONNECT_TRIES RETRY_INTERVAL w]
  by (auto simp: sftp_connect_def split: prod.splits sum.splits)

lemma download_group_failures:
  "download_group ev cfg sftp msg entries w = (r, w') \<Longrightarrow>
   \<exists>new. failures w' = failures w @ new \<and> fst ` set new \<subseteq> set entries"
proof (induction entries arbitrary: w)
  case Nil
  then show ?case by simp
next
  case (Cons entry entries)
  show ?case
  proof (cases sftp)
    case None
    with Cons.prems
    have "download_group ev cfg sftp msg entries (entry_fail entry msg w) = (r, w')" by simp
    from Cons.IH [OF this] obtain new where
      "failures w' = failures (entry_fail entry msg w) @ new" "fst ` set new \<subseteq> set entries"
      by blast
    then have "failures w' = failures w @ ((entry, msg) # new)
        \<and> fst ` set ((entry, msg) # new) \<subseteq> set (entry # entries)"
      by (auto simp: entry_fail_def)
    then show ?thesis by blast
  next
    case (Some sf)
    obtain r1 w1 where de: "download_entry ev entry cfg sf w = (r1, w1)" by fastforce
    from download_entry_failures [OF de] obtain n1 where
      n1: "failures w1 = failures w @ n1" "fst ` set n1 \<subseteq> {entry}"
      by (metis append_Nil2 empty_set empty_subsetI fst_conv image_empty image_insert
          list.simps(15) subset_refl)
    show ?thesis
    proof (cases r1)
      case None
      with Cons.prems Some de
      have "download_group ev cfg sftp msg entries w1 = (r, w')" by simp
      from Cons.IH [OF this] obtain new where
        "failures w' = failures w1 @ new" "fst ` set new \<subseteq> set entries" by blast
      with n1 have "failures w' = failures w @ (n1 @ new)
          \<and> fst ` set (n1 @ new) \<subseteq> set (entry # entries)"
        by auto
      then show ?thesis by blast
    next
      case (Some e)
      with Cons.prems \<open>sftp = Some sf\<close> de have "w' = w1" by simp
      with n1 have "failures w' = failures w @ n1 \<and> fst ` set n1 \<subseteq> set (entry # entries)"
        by auto
      then show ?thesis by blast
    qed
  qed
qed

lemma served_simps [simp]:
  "served [] = {}"
  "served ((Inl e, es) # groups) = served groups"
  "served ((Inr None, es) # groups) = served groups"
  "served ((Inr (Some k), es) # groups) = set es \<union> served groups"
  by (simp_all add: served_def)

lemma download_groups_failures:
  "download_groups ev cfg groups w = (r, w') \<Longrightarrow>
   \<exists>new. failures w' = failures w @ new \<and> fst ` set new \<subseteq> served groups"
proof (induction ev cfg groups w rule: download_groups.induct)
  case (1 ev cfg w)
  then show ?case by simp
next
  case (2 ev cfg e entries groups w)
  then show ?case by simp
next
  case (3 ev cfg entries groups w)
  then show ?case by simp
next
  case (4 ev cfg sftp_config entries groups w)
  obtain c w1 where sc: "sftp_connect ev sftp_config w = (c, w1)" by fastforce
  have f1: "failures w1 = failures w" using sftp_connect_failuresD [OF sc] .
  define sftp where "sftp = (case c of Inl e \<Rightarrow> None | Inr s \<Rightarrow> s)"
  define msg where
    "msg = (case c of Inl e \<Rightarrow> FailConnect (host sftp_config) e | Inr s \<Rightarrow> FailNoReason)"
  obtain r2 w2 where dg: "download_group ev cfg sftp msg entries w1 = (r2, w2)" by fastforce
  from download_group_failures [OF dg] f1 obtain n2 where
    n2: "failures w2 = failures w @ n2" "fst ` set n2 \<subseteq> set entries" by auto
  have stop: "failures w' = failures w @ n2
      \<and> fst ` set n2 \<subseteq> served ((Inr (Some sftp_config), entries) # groups)"
    if "w' = w2"
    using that n2 by auto
  show ?case
  proof (cases r2)
    case (Some e')
    with "4.prems" sc dg have "w' = w2"
      by (cases c) (simp_all add: sftp_def msg_def)
    from stop [OF this] show ?thesis by blast
  next
    case None
    show ?thesis
    proof (cases c)
      case (Inl e)
      with "4.prems" sc dg None have rest: "download_groups ev cfg groups w2 = (r, w')"
        by (simp add: sftp_def msg_def)
      have "\<exists>new. failures w' = failures w2 @ new \<and> fst ` set new \<subseteq> served groups"
        using "4.IH"(1) [OF sc [symmetric] Inl _ None] dg rest Inl
        by (simp add: sftp_def msg_def)
      then obtain new where
        "failures w' = failures w2 @ new" "fst ` set new \<subseteq> served groups" by blast
      with n2 have "failures w' = failures w @ (n2 @ new)
          \<and> fst ` set (n2 @ new) \<subseteq> served ((Inr (Some sftp_config), entries) # groups)"
        by auto
      then show ?thesis by blast
    next
      case (Inr s)
      show ?thesis
      proof (cases "next_key_error groups")
        case (Some e')
        with "4.prems" sc dg None Inr have "w' = w2"
          by (simp add: sftp_def msg_def)
        from stop [OF this] show ?thesis by blast
      next
        case nk: None
        define w3 where "w3 = (if s \<noteq> None then sftp_close w2 else w2)"
        have f3: "failures w3 = failures w2" by (simp add: w3_def sftp_close_def)
        have rest: "download_groups ev cfg groups w3 = (r, w')"
          using "4.prems" sc dg None Inr nk by (simp add: sftp_def msg_def w3_def)
        have "\<exists>new. failures w' = failures w3 @ new \<and> fst ` set new \<subseteq> served groups"
          using "4.IH"(2) [OF sc [symmetric] Inr _ None nk] dg rest Inr
          by (simp add: sftp_def msg_def w3_def)
        then obtain new where
          "failures w' = failures w3 @ new" "fst ` set new \<subseteq> served groups" by blast
        with n2 f3 have "failures w' = failures w @ (n2 @ new)
            \<and> fst ` set (n2 @ new) \<subseteq> served ((Inr (Some sftp_config), entries) # groups)"
          by auto
        then show ?thesis by blast
      qed
    qed
  qed
qed

lemma served_Cons: "served ((k, es) # groups) = (if keyed k then set es else {}) \<union> served groups"
  by (simp add: served_def)

lemma groupby_served_key:
  "x \<in> served (groupby key xs) \<Longrightarrow> keyed (key x) \<and> x \<in> set xs"
proof (induction key xs rule: groupby.induct)
  case (1 key)
  then show ?case by simp
next
  case (2 key y ys)
  let ?run = "y # takeWhile (\<lambda>z. key z = key y) ys"
  let ?rest = "dropWhile (\<lambda>z. key z = key y) ys"
  from "2.prems" have "(keyed (key y) \<and> x \<in> set ?run) \<or> x \<in> served (groupby key ?rest)"
    by (simp add: served_Cons split: if_splits)
  then show ?case
  proof
    assume a: "keyed (key y) \<and> x \<in> set ?run"
    then have "key x = key y \<and> x \<in> set (y # ys)"
      by (auto dest: set_takeWhileD)
    with a show ?thesis by simp
  next
    assume "x \<in> served (groupby key ?rest)"
    from "2.IH" [OF this] show ?thesis
      by (auto dest: set_dropWhileD)
  qed
qed

lemma keyed_iff: "keyed k \<longleftrightarrow> (\<exists>conf. k = Inr (Some conf))"
  by (cases k rule: keyed.cases) simp_all

lemma groupby_keys: "list_all (\<lambda>g. fst g \<in> key ` set xs) (groupby key xs)"
proof (induction key xs rule: groupby.induct)
  case (1 key)
  then show ?case by simp
next
  case (2 key x xs)
  have "key ` set (dropWhile (\<lambda>y. key y = key x) xs) \<subseteq> key ` set (x # xs)"
    by (auto dest: set_dropWhileD)
  with 2 show ?case
    by (auto simp: list_all_iff)
qed

lemma groupby_keys_pred:
  assumes "list_all (\<lambda>x. P (key x)) xs"
  shows "list_all (\<lambda>g. P (fst g)) (groupby key xs)"
  using groupby_keys [of key xs] assms by (auto simp: list_all_iff)

text \<open>Where no key is an exception, the groups without identity can be left out.\<close>

lemma next_key_error_None:
  "list_all (\<lambda>g. \<not> isl (fst g)) groups \<Longrightarrow> next_key_error groups = None"
  by (cases groups rule: next_key_error.cases) simp_all

lemma download_groups_filter:
  "list_all (\<lambda>g. \<not> isl (fst g)) groups \<Longrightarrow>
   download_groups ev cfg groups w
     = download_groups ev cfg (filter (\<lambda>g. fst g \<noteq> Inr None) groups) w"
proof (induction ev cfg groups w rule: download_groups.induct)
  case (4 ev cfg sftp_config entries groups w)
  then have ok: "list_all (\<lambda>g. \<not> isl (fst g)) groups" by simp
  then have ok': "list_all (\<lambda>g. \<not> isl (fst g)) (filter (\<lambda>g. fst g \<noteq> Inr None) groups)"
    by (simp add: list_all_iff)
  have nk: "next_key_error groups = None"
    "next_key_error (filter (\<lambda>g. fst g \<noteq> Inr None) groups) = None"
    using ok ok' by (simp_all add: next_key_error_None)
  show ?case
    using "4.IH" ok nk
    by (auto split: prod.splits sum.splits option.splits)
qed simp_all

lemma download_groups_no_key:
  "list_all (\<lambda>g. fst g = Inr None) groups \<Longrightarrow> download_groups ev cfg groups w = (None, w)"
  by (induction ev cfg groups w rule: download_groups.induct) simp_all

text \<open>
  C8 (counterexample). An accepted entry whose URL has the scheme \<^verbatim>\<open>http\<close> has no
  identity; the download run passes over it and records no failure for it.
\<close>

theorem on_task_download_unidentified_counterexample:
  "get_sftp_config (serving_env null_sftp) (example_entry ''http://a.example/f.txt'') = Inr None \<and>
   on_task_download (serving_env null_sftp) [example_entry ''http://a.example/f.txt'']
       download_cfg empty_world = (None, empty_world) \<and>
   failures (snd (on_task_download (serving_env null_sftp)
       [example_entry ''http://a.example/f.txt''] download_cfg empty_world)) = []"
  using get_sftp_config_examples(3) [of null_sftp "''/f.txt''"]
  by (simp add: on_task_download_def dependency_check_def serving_env_def empty_world_def)

text \<open>
  C8 (amended). An entry for which \<^verbatim>\<open>get_sftp_config\<close> returns \<^verbatim>\<open>None\<close> is in no
  group that the download run serves and is passed over without an outcome. Every
  failure that a run records is for an accepted entry that has an identity. Where
  \<^verbatim>\<open>get_sftp_config\<close> raises for no accepted entry, the run is the run over the groups
  that have an identity and no other: the entries without identity add no connection
  attempt, no sleep, no transfer and no failure to the world. A run over entries none of
  which has an identity returns normally and leaves the world as it was.
\<close>

theorem on_task_download_skips_unidentified:
  "(on_task_download ev accepted cfg w = (r, w') \<longrightarrow>
      (\<exists>new. failures w' = failures w @ new \<and>
         list_all (\<lambda>(entry, reason). keyed (get_sftp_config ev entry) \<and> entry \<in> set accepted) new))
   \<and> (pysftp_present ev \<and> list_all (\<lambda>entry. \<not> isl (get_sftp_config ev entry)) accepted \<longrightarrow>
      on_task_download ev accepted cfg w
        = download_groups ev cfg
            (filter (\<lambda>g. fst g \<noteq> Inr None) (groupby (get_sftp_config ev) accepted)) w)
   \<and> (pysftp_present ev \<and> list_all (\<lambda>entry. get_sftp_config ev entry = Inr None) accepted \<longrightarrow>
      on_task_download ev accepted cfg w = (None, w))"
proof (intro conjI impI)
  assume run: "on_task_download ev accepted cfg w = (r, w')"
  show "\<exists>new. failures w' = failures w @ new \<and>
         list_all (\<lambda>(entry, reason). keyed (get_sftp_config ev entry) \<and> entry \<in> set accepted) new"
  proof (cases "dependency_check ev")
    case (Some e)
    with run have "failures w' = failures w @ [] \<and>
        list_all (\<lambda>(entry, reason). keyed (get_sftp_config ev entry) \<and> entry \<in> set accepted) []"
      by (simp add: on_task_download_def)
    then show ?thesis by blast
  next
    case None
    with run have "download_groups ev cfg (groupby (get_sftp_config ev) accepted) w = (r, w')"
      by (simp add: on_task_download_def)
    from download_groups_failures [OF this] obtain new where
      new: "failures w' = failures w @ new"
        "fst ` set new \<subseteq> served (groupby (get_sftp_config ev) accepted)"
      by blast
    have "list_all (\<lambda>(entry, reason). keyed (get_sftp_config ev entry) \<and> entry \<in> set accepted) new"
      unfolding list_all_iff
    proof (intro ballI)
      fix x assume "x \<in> set new"
      then have "fst x \<in> served (groupby (get_sftp_config ev) accepted)"
        using new(2) by auto
      from groupby_served_key [OF this] show "case x of (entry, reason) \<Rightarrow>
          keyed (get_sftp_config ev entry) \<and> entry \<in> set accepted"
        by (cases x) simp
    qed
    with new(1) show ?thesis by blast
  qed
next
  assume a: "pysftp_present ev \<and> list_all (\<lambda>entry. \<not> isl (get_sftp_config ev entry)) accepted"
  then have "list_all (\<lambda>g. \<not> isl (fst g)) (groupby (get_sftp_config ev) accepted)"
    using groupby_keys_pred [of "\<lambda>k. \<not> isl k" "get_sftp_config ev" accepted] by simp
  from download_groups_filter [OF this] a
  show "on_task_download ev accepted cfg w
        = download_groups ev cfg
            (filter (\<lambda>g. fst g \<noteq> Inr None) (groupby (get_sftp_config ev) accepted)) w"
    by (simp add: on_task_download_def dependency_check_def)
next
  assume a: "pysftp_present ev \<and> list_all (\<lambda>entry. get_sftp_config ev entry = Inr None) accepted"
  then have "list_all (\<lambda>g. fst g = Inr None) (groupby (get_sftp_config ev) accepted)"
    using groupby_keys_pred [of "\<lambda>k. k = Inr None" "get_sftp_config ev" accepted] by simp
  with a show "on_task_download ev accepted cfg w = (None, w)"
    by (simp add: on_task_download_def dependency_check_def download_groups_no_key)
qed

lemma get_sftp_config_refusing:
  "get_sftp_config refusing_env (example_entry (''sftp://a.example'' @ p)) = Inr (Some identity_A)"
  "get_sftp_config refusing_env (example_entry (''http://a.example'' @ p)) = Inr None"
  by (simp_all add: get_sftp_config_def refusing_env_def example_entry_def example_urlparse_def
      null_url_def identity_A_def Let_def)

lemma sftp_connect_refusing:
  "sftp_connect refusing_env conf w =
     (Inl (IOError ''refused''), w\<lparr>attempts := attempts w + 4, sleeps := sleeps w @ [15, 20, 25]\<rparr>)"
  by (simp add: sftp_connect_def CONNECT_TRIES_def RETRY_INTERVAL_def RETRY_STEP_def
      eval_nat_numeral refusing_env_def)

lemma refused_groups:
  "download_groups refusing_env download_cfg
       [(Inr (Some identity_A), [example_entry ''sftp://a.example/1''])] empty_world
     = (None, empty_world\<lparr>attempts := 4, sleeps := [15, 20, 25],
          failures := [(example_entry ''sftp://a.example/1'',
                        FailConnect (Some ''a.example'') (IOError ''refused''))]\<rparr>)"
  by (simp add: sftp_connect_refusing entry_fail_def identity_A_def)
     (simp add: empty_world_def)

lemma refused_run:
  "on_task_download refusing_env
       [example_entry ''http://a.example/f.txt'', example_entry ''sftp://a.example/1'']
       download_cfg empty_world
     = (None, empty_world\<lparr>attempts := 4, sleeps := [15, 20, 25],
          failures := [(example_entry ''sftp://a.example/1'',
                        FailConnect (Some ''a.example'') (IOError ''refused''))]\<rparr>)"
  using get_sftp_config_refusing(1) [of "''/1''"] get_sftp_config_refusing(2) [of "''/f.txt''"]
    refused_groups
  by (simp add: on_task_download_def dependency_check_def) (simp add: refusing_env_def)

theorem on_task_download_skips_unidentified_witness:
  "on_task_download refusing_env
       [example_entry ''http://a.example/f.txt'', example_entry ''sftp://a.example/1'']
       download_cfg empty_world
     = (None, empty_world\<lparr>attempts := 4, sleeps := [15, 20, 25],
          failures := [(example_entry ''sftp://a.example/1'',
                        FailConnect (Some ''a.example'') (IOError ''refused''))]\<rparr>) \<and>
   keyed (get_sftp_config refusing_env (example_entry ''sftp://a.example/1'')) \<and>
   get_sftp_config refusing_env (example_entry ''http://a.example/f.txt'') = Inr None \<and>
   pysftp_present refusing_env \<and>
   on_task_download refusing_env
       [example_entry ''http://a.example/f.txt'', example_entry ''sftp://a.example/1'']
       download_cfg empty_world
     = download_groups refusing_env download_cfg
         [(Inr (Some identity_A), [example_entry ''sftp://a.example/1''])] empty_world \<and>
   on_task_download refusing_env [example_entry ''http://a.example/f.txt''] download_cfg
       empty_world = (None, empty_world)"
proof -
  have k1: "get_sftp_config refusing_env (example_entry ''sftp://a.example/1'')
      = Inr (Some identity_A)"
    using get_sftp_config_refusing(1) [of "''/1''"] by simp
  have k2: "get_sftp_config refusing_env (example_entry ''http://a.example/f.txt'') = Inr None"
    using get_sftp_config_refusing(2) [of "''/f.txt''"] by simp
  have kk: "keyed (get_sftp_config refusing_env (example_entry ''sftp://a.example/1''))"
    by (simp add: k1)
  have pres: "pysftp_present refusing_env" by (simp add: refusing_env_def)
  have grp: "filter (\<lambda>g. fst g \<noteq> Inr None) (groupby (get_sftp_config refusing_env)
        [example_entry ''http://a.example/f.txt'', example_entry ''sftp://a.example/1''])
      = [(Inr (Some identity_A), [example_entry ''sftp://a.example/1''])]"
    by (simp add: k1 k2)
  have h2: "pysftp_present refusing_env \<and>
      list_all (\<lambda>entry. \<not> isl (get_sftp_config refusing_env entry))
        [example_entry ''http://a.example/f.txt'', example_entry ''sftp://a.example/1'']"
    by (simp add: pres k1 k2)
  have h3: "pysftp_present refusing_env \<and>
      list_all (\<lambda>entry. get_sftp_config refusing_env entry = Inr None)
        [example_entry ''http://a.example/f.txt'']"
    by (simp add: pres k2)
  have a: "on_task_download refusing_env
       [example_entry ''http://a.example/f.txt'', example_entry ''sftp://a.example/1'']
       download_cfg empty_world
     = download_groups refusing_env download_cfg
         [(Inr (Some identity_A), [example_entry ''sftp://a.example/1''])] empty_world"
    using on_task_download_skips_unidentified [of refusing_env
        "[example_entry ''http://a.example/f.txt'', example_entry ''sftp://a.example/1'']"
        download_cfg empty_world None empty_world,
        THEN conjunct2, THEN conjunct1, THEN mp, OF h2]
    unfolding grp .
  have b: "on_task_download refusing_env [example_entry ''http://a.example/f.txt'']
       download_cfg empty_world = (None, empty_world)"
    using on_task_download_skips_unidentified [of refusing_env
        "[example_entry ''http://a.example/f.txt'']" download_cfg empty_world None empty_world,
        THEN conjunct2, THEN conjunct2, THEN mp, OF h3] .
  show ?thesis
    by (intro conjI) (rule refused_run kk k2 pres a b)+
qed

text \<open>
  C7 (the code at the failing input). The remote path of the only accepted entry does
  not exist: the run connects, \<^verbatim>\<open>download_entry\<close> returns at the \<^verbatim>\<open>lexists\<close> test,
  the session is closed, and no failure is recorded for the entry.
\<close>

theorem download_missing_source_not_failed:
  "\<not> sftp_lexists null_sftp ''/missing.txt'' \<and>
   on_task_download (serving_env null_sftp) [example_entry ''sftp://a.example/missing.txt'']
       download_cfg empty_world
     = (None, empty_world\<lparr>attempts := 1, opened := 1, closed := 1\<rparr>) \<and>
   failures (snd (on_task_download (serving_env null_sftp)
       [example_entry ''sftp://a.example/missing.txt''] download_cfg empty_world)) = []"
proof -
  have conn: "sftp_connect (serving_env null_sftp) identity_A empty_world
      = (Inr (Some (null_sftp\<lparr>timeout := Some SOCKET_TIMEOUT\<rparr>)),
         empty_world\<lparr>attempts := 1, opened := 1\<rparr>)"
    by (simp add: sftp_connect_def CONNECT_TRIES_def eval_nat_numeral serving_env_def
        empty_world_def null_sftp_def)
  have entry: "download_entry (serving_env null_sftp)
      (example_entry ''sftp://a.example/missing.txt'') download_cfg
      (null_sftp\<lparr>timeout := Some SOCKET_TIMEOUT\<rparr>) w = (None, w)" for w
    by (simp add: download_entry_def serving_env_def example_entry_def example_urlparse_def
        null_url_def download_cfg_def null_sftp_def Let_def)
  have run: "on_task_download (serving_env null_sftp)
       [example_entry ''sftp://a.example/missing.txt''] download_cfg empty_world
     = (None, empty_world\<lparr>attempts := 1, opened := 1, closed := 1\<rparr>)"
    using get_sftp_config_examples(1) [of null_sftp "''/missing.txt''"]
    by (simp add: on_task_download_def dependency_check_def conn entry sftp_close_def)
       (simp add: serving_env_def empty_world_def)
  show ?thesis
    using run by (simp add: null_sftp_def empty_world_def)
qed

section \<open>Listing: the size of a directory\<close>

lemma node_size_ok:
  "\<not> isl (sftp_lstat sf p) \<Longrightarrow> node_size sf p acc = (None, acc @ [lstat_size sf p])"
  by (cases "sftp_lstat sf p") (simp_all add: node_size_def file_size_def lstat_size_def)

lemma walk_sizes:
  "node_ok n \<Longrightarrow> list_all (\<lambda>p. \<not> isl (sftp_lstat sf p)) (node_paths dir n) \<Longrightarrow>
   walk_node (node_size sf) (node_size sf) (node_size sf) True dir n acc
     = (None, acc @ map (lstat_size sf) (node_paths dir n))"
  "nodes_ok ns \<Longrightarrow> list_all (\<lambda>p. \<not> isl (sftp_lstat sf p)) (nodes_paths dir ns) \<Longrightarrow>
   walk_nodes (node_size sf) (node_size sf) (node_size sf) True dir ns acc
     = (None, acc @ map (lstat_size sf) (nodes_paths dir ns))"
  by (induction dir n and dir ns arbitrary: acc and acc rule: node_paths_nodes_paths.induct)
     (simp_all add: node_size_ok)

lemma dir_size_sum:
  assumes "sftp_tree sf path = Inr children" "nodes_ok children"
    "list_all (\<lambda>p. \<not> isl (sftp_lstat sf p)) (nodes_paths path children)"
  shows "dir_size sf path = Inr (sum_list (map (lstat_size sf) (nodes_paths path children)))"
  using assms walk_sizes(2) [of children sf path "[]"]
  by (simp add: dir_size_def walktree_def)

lemma join_examples:
  "path_join ''/data'' [''a''] = ''/data/a''" "path_join ''/data'' [''b''] = ''/data/b''"
  "path_join ''/data'' [''c''] = ''/data/c''" "path_join ''/mixed'' [''a''] = ''/mixed/a''"
  "path_join ''/mixed'' [''sub''] = ''/mixed/sub''"
  by (simp_all add: path_join_def join2_def endswith_sep_def is_sep_def)

text \<open>
  C5 (counterexample). \<^verbatim>\<open>/mixed\<close> holds one file of size 10 and an empty
  subdirectory whose own \<^verbatim>\<open>lstat\<close> size is 4096: the sizes of its files sum to 10,
  and \<^verbatim>\<open>dir_size\<close> gives 4106.
\<close>

theorem dir_size_counts_directories_counterexample:
  "sftp_tree sized_sftp ''/mixed'' = Inr [RFile ''a'', RDir ''sub'' []] \<and>
   sum_list (map (lstat_size sized_sftp)
      (nodes_file_paths ''/mixed'' [RFile ''a'', RDir ''sub'' []])) = 10 \<and>
   dir_size sized_sftp ''/mixed'' = Inr 4106"
  by (simp add: dir_size_def walktree_def sized_sftp_def null_sftp_def node_size_def
      file_size_def lstat_size_def join_examples)

text \<open>
  C5 (amended). \<^verbatim>\<open>dir_size\<close> hands the same callback to the walk for files,
  directories and unknown nodes, so where the walk and every \<^verbatim>\<open>lstat\<close> succeed the
  size of a directory is the sum of the \<^verbatim>\<open>lstat\<close> sizes of all nodes below it, of
  every kind; with \<^verbatim>\<open>get_size\<close> set and \<^verbatim>\<open>files_only\<close> unset, that sum is the
  \<^verbatim>\<open>content_size\<close> of the entry that \<^verbatim>\<open>handle_node\<close> makes for the directory.
\<close>

theorem dir_size_sums_every_node:
  assumes "sftp_tree sf path = Inr children"
    and "nodes_ok children"
    and "list_all (\<lambda>p. \<not> isl (sftp_lstat sf p)) (nodes_paths path children)"
  shows "dir_size sf path = Inr (sum_list (map (lstat_size sf) (nodes_paths path children))) \<and>
    (cfg_get_size cfg \<and> \<not> cfg_files_only cfg \<and> \<not> isl (sftp_normalize sf path) \<longrightarrow>
       map content_size (snd (handle_node ev cfg sf url_prefix (dir_size sf) True path entries))
         = map content_size entries
             @ [Some (sum_list (map (lstat_size sf) (nodes_paths path children)))])"
proof -
  have ds: "dir_size sf path = Inr (sum_list (map (lstat_size sf) (nodes_paths path children)))"
    using assms by (rule dir_size_sum)
  show ?thesis
    using ds by (cases "sftp_normalize sf path") (simp_all add: handle_node_def Let_def)
qed

theorem dir_size_sums_every_node_witness:
  "sftp_tree sized_sftp ''/data'' = Inr [RFile ''a'', RFile ''b'', RFile ''c''] \<and>
   nodes_ok [RFile ''a'', RFile ''b'', RFile ''c''] \<and>
   list_all (\<lambda>p. \<not> isl (sftp_lstat sized_sftp p))
     (nodes_paths ''/data'' [RFile ''a'', RFile ''b'', RFile ''c'']) \<and>
   dir_size sized_sftp ''/data'' = Inr 60 \<and>
   cfg_get_size list_cfg \<and> \<not> cfg_files_only list_cfg \<and>
   \<not> isl (sftp_normalize sized_sftp ''/data'') \<and>
   map content_size (snd (handle_node (serving_env sized_sftp) list_cfg sized_sftp
       ''sftp://u@a.example/'' (dir_size sized_sftp) True ''/data'' [])) = [Some 60] \<and>
   sftp_tree sized_sftp ''/empty'' = Inr [] \<and>
   dir_size sized_sftp ''/empty'' = Inr 0"
  using dir_size_sums_every_node [of sized_sftp "''/data''" "[RFile ''a'', RFile ''b'', RFile ''c'']"
      list_cfg "serving_env sized_sftp" "''sftp://u@a.example/''" "[]"]
    dir_size_sums_every_node [of sized_sftp "''/empty''" "[]"
      list_cfg "serving_env sized_sftp" "''sftp://u@a.example/''" "[]"]
  by (simp add: sized_sftp_def null_sftp_def lstat_size_def join_examples list_cfg_def)

section \<open>Listing: the session\<close>

lemma sftp_connect_loop_sessions:
  "closed (snd (sftp_connect_loop ev conf tries interval w)) = closed w \<and>
   opened w \<le> opened (snd (sftp_connect_loop ev conf tries interval w)) \<and>
   (\<not> isl (fst (sftp_connect_loop ev conf tries interval w)) \<longrightarrow>
      opened (snd (sftp_connect_loop ev conf tries interval w)) = opened w + 1)"
  by (induction ev conf tries interval w rule: sftp_connect_loop.induct)
     (simp_all split: sum.splits option.splits)

lemma sftp_connect_sessions:
  "closed (snd (sftp_connect ev conf w)) = closed w \<and>
   fst (sftp_connect ev conf w) \<noteq> Inr None \<and>
   (\<not> isl (fst (sftp_connect ev conf w)) \<longrightarrow>
      opened (snd (sftp_connect ev conf w)) = opened w + 1)"
  using sftp_connect_loop_sessions [where ev = ev and conf = conf and tries = CONNECT_TRIES
      and interval = RETRY_INTERVAL and w = w]
  by (auto simp: sftp_connect_def split: prod.splits sum.splits)

lemma sftp_from_config_sessions:
  "closed (snd (sftp_from_config ev cfg w)) = closed w \<and>
   fst (sftp_from_config ev cfg w) \<noteq> Inr None \<and>
   (\<not> isl (fst (sftp_from_config ev cfg w)) \<longrightarrow>
      opened (snd (sftp_from_config ev cfg w)) = opened w + 1)"
proof -
  define conf where "conf = \<lparr>host = Some (cfg_host cfg), port = cfg_port cfg,
                        username = Some (cfg_username cfg), password = cfg_password cfg,
                        private_key = cfg_private_key cfg,
                        private_key_pass = cfg_private_key_pass cfg\<rparr>"
  show ?thesis
    using sftp_connect_sessions [where ev = ev and conf = conf and w = w]
    by (auto simp: sftp_from_config_def conf_def [symmetric] split: prod.splits sum.splits)
qed

lemma list_dirs_raises:
  "list_dirs ev cfg sf url_prefix dirs entries = (Some e, entries') \<Longrightarrow> \<not> is_IOError e"
  by (induction dirs arbitrary: entries) (auto split: prod.splits option.splits if_splits)

lemma dropped_run:
  "on_task_input (serving_env dropping_sftp) list_cfg empty_world
     = (Inl (OtherError ''Server connection dropped''),
        empty_world\<lparr>attempts := 1, opened := 1\<rparr>)"
  by (simp add: on_task_input_def dependency_check_def prepare_config_list_def list_cfg_def
      sftp_from_config_def sftp_connect_def CONNECT_TRIES_def eval_nat_numeral serving_env_def
      empty_world_def dropping_sftp_def null_sftp_def walktree_def Let_def)

text \<open>
  C6 (counterexample). The listing of the root raises an exception that is not an
  \<^verbatim>\<open>IOError\<close>: it leaves \<^verbatim>\<open>on_task_input\<close>, and the session that was opened is
  not closed.
\<close>

theorem on_task_input_leak_counterexample:
  "on_task_input (serving_env dropping_sftp) list_cfg empty_world
     = (Inl (OtherError ''Server connection dropped''),
        empty_world\<lparr>attempts := 1, opened := 1\<rparr>) \<and>
   opened (snd (on_task_input (serving_env dropping_sftp) list_cfg empty_world)) = 1 \<and>
   closed (snd (on_task_input (serving_env dropping_sftp) list_cfg empty_world)) = 0"
  by (simp add: dropped_run) (simp add: empty_world_def)

text \<open>
  C6 (amended). When \<^verbatim>\<open>on_task_input\<close> returns its entries, it has opened one
  session and closed it. An \<^verbatim>\<open>IOError\<close> from the walk of a root is caught, so once
  the session is open no \<^verbatim>\<open>IOError\<close> leaves the call; an exception of another kind
  leaves the call with the session open, and nothing is closed on an exceptional exit.
\<close>

theorem on_task_input_closes_on_return:
  "on_task_input ev cfg w = (r, w') \<Longrightarrow>
   (case r of
      Inr entries \<Rightarrow> opened w' = opened w + 1 \<and> closed w' = closed w + 1
    | Inl e \<Rightarrow> closed w' = closed w \<and>
        (pysftp_present ev \<and>
         \<not> isl (fst (sftp_from_config ev (prepare_config_list cfg) w)) \<longrightarrow>
           \<not> is_IOError e \<and> opened w' = opened w + 1))"
  using sftp_from_config_sessions [where ev = ev and cfg = "prepare_config_list cfg" and w = w]
  unfolding on_task_input_def Let_def
  by (auto split: option.splits prod.splits sum.splits
      simp: sftp_close_def dependency_check_def dest!: list_dirs_raises)

lemma sftp_from_config_serving:
  "sftp_set_timeout sf = None \<Longrightarrow>
   sftp_from_config (serving_env sf) cfg w
     = (Inr (Some (sf\<lparr>timeout := Some SOCKET_TIMEOUT\<rparr>)),
        w\<lparr>attempts := attempts w + 1, opened := opened w + 1\<rparr>)"
  by (simp add: sftp_from_config_def sftp_connect_def CONNECT_TRIES_def eval_nat_numeral
      serving_env_def Let_def)

lemma two_roots_run:
  "on_task_input (serving_env sized_sftp) two_roots_cfg empty_world
     = (Inr [\<lparr>title = ''a'', url = ''sftp://u@a.example//data/a'', location = None,
              content_size = Some 10, entry_private_key = None, entry_private_key_pass = None\<rparr>,
            \<lparr>title = ''b'', url = ''sftp://u@a.example//data/b'', location = None,
              content_size = Some 20, entry_private_key = None, entry_private_key_pass = None\<rparr>,
            \<lparr>title = ''c'', url = ''sftp://u@a.example//data/c'', location = None,
              content_size = Some 30, entry_private_key = None, entry_private_key_pass = None\<rparr>],
        empty_world\<lparr>attempts := 1, opened := 1, closed := 1\<rparr>)"
proof -
  have conn: "sftp_from_config (serving_env sized_sftp) (prepare_config_list two_roots_cfg) w
      = (Inr (Some (sized_sftp\<lparr>timeout := Some SOCKET_TIMEOUT\<rparr>)),
         w\<lparr>attempts := attempts w + 1, opened := opened w + 1\<rparr>)" for w
    by (rule sftp_from_config_serving) (simp add: sized_sftp_def null_sftp_def)
  have pres: "pysftp_present (serving_env sized_sftp)" by (simp add: serving_env_def)
  have dirs: "cfg_dirs (prepare_config_list two_roots_cfg)
      = Some (ManyDirs [''/nowhere'', ''/data''])"
    by (simp add: prepare_config_list_def two_roots_cfg_def)
  have prefix: "sftp_prefix (prepare_config_list two_roots_cfg) = ''sftp://u@a.example/''"
    by (simp add: sftp_prefix_def prepare_config_list_def two_roots_cfg_def list_cfg_def)
  have names: "basename ''/data/a'' = ''a''" "basename ''/data/b'' = ''b''"
    "basename ''/data/c'' = ''c''"
    by (simp_all add: basename_def path_split_def is_sep_def)
  have walk: "list_dirs (serving_env sized_sftp) (prepare_config_list two_roots_cfg)
      (sized_sftp\<lparr>timeout := Some SOCKET_TIMEOUT\<rparr>) ''sftp://u@a.example/''
      [''/nowhere'', ''/data''] []
      = (None, [\<lparr>title = ''a'', url = ''sftp://u@a.example//data/a'', location = None,
              content_size = Some 10, entry_private_key = None, entry_private_key_pass = None\<rparr>,
            \<lparr>title = ''b'', url = ''sftp://u@a.example//data/b'', location = None,
              content_size = Some 20, entry_private_key = None, entry_private_key_pass = None\<rparr>,
            \<lparr>title = ''c'', url = ''sftp://u@a.example//data/c'', location = None,
              content_size = Some 30, entry_private_key = None, entry_private_key_pass = None\<rparr>])"
    by (simp add: walktree_def handle_node_def file_size_def prepare_config_list_def
        two_roots_cfg_def list_cfg_def sized_sftp_def null_sftp_def serving_env_def
        join_examples names Let_def)
  show ?thesis
    by (simp add: on_task_input_def dependency_check_def pres dirs conn prefix walk
        sftp_close_def empty_world_def Let_def del: list_dirs.simps)
qed

theorem on_task_input_closes_on_return_witness:
  "sftp_tree sized_sftp ''/nowhere'' = Inl (IOError ''No such file'') \<and>
   map_sum id (map content_size)
       (fst (on_task_input (serving_env sized_sftp) two_roots_cfg empty_world))
     = Inr [Some 10, Some 20, Some 30] \<and>
   opened (snd (on_task_input (serving_env sized_sftp) two_roots_cfg empty_world))
     = opened empty_world + 1 \<and>
   closed (snd (on_task_input (serving_env sized_sftp) two_roots_cfg empty_world))
     = closed empty_world + 1 \<and>
   pysftp_present (serving_env dropping_sftp) \<and>
   \<not> isl (fst (sftp_from_config (serving_env dropping_sftp) (prepare_config_list list_cfg)
             empty_world)) \<and>
   fst (on_task_input (serving_env dropping_sftp) list_cfg empty_world)
     = Inl (OtherError ''Server connection dropped'') \<and>
   \<not> is_IOError (OtherError ''Server connection dropped'') \<and>
   opened (snd (on_task_input (serving_env dropping_sftp) list_cfg empty_world))
     = opened empty_world + 1 \<and>
   closed (snd (on_task_input (serving_env dropping_sftp) list_cfg empty_world))
     = closed empty_world"
proof -
  have drop_conn: "sftp_from_config (serving_env dropping_sftp) (prepare_config_list list_cfg) w
      = (Inr (Some (dropping_sftp\<lparr>timeout := Some SOCKET_TIMEOUT\<rparr>)),
         w\<lparr>attempts := attempts w + 1, opened := opened w + 1\<rparr>)" for w
    by (rule sftp_from_config_serving) (simp add: dropping_sftp_def null_sftp_def)
  note drop_run = dropped_run
  have pres: "pysftp_present (serving_env dropping_sftp)" by (simp add: serving_env_def)
  have t1: "sftp_tree sized_sftp ''/nowhere'' = Inl (IOError ''No such file'')"
    by (simp add: sized_sftp_def null_sftp_def)
  have w0: "opened empty_world = 0" "closed empty_world = 0"
    by (simp_all add: empty_world_def)
  show ?thesis
    using on_task_input_closes_on_return [OF two_roots_run]
      on_task_input_closes_on_return [OF drop_run] pres
    by (simp add: two_roots_run drop_run drop_conn t1 w0)
qed

section \<open>Uploading: a failed transfer\<close>

lemma basename_example: "basename ''/local/a.txt'' = ''a.txt''"
  by (simp add: basename_def path_split_def is_sep_def rstrip_sep_def)

lemma up_join: "path_join ''/up'' [''a.txt''] = ''/up/a.txt''"
  by (simp add: path_join_def join2_def endswith_sep_def is_sep_def)

lemma fmt1: "brace_format ''Remote directory does not exist: {} ({})'' [to]
    = Inl (IndexError ''Replacement index out of range for positional args tuple'')"
  by simp

lemma fmt2: "percent_format ''Remote directory does not exist: %s (%s)'' [to]
    = Inl (TypeError ''not enough arguments for format string'')"
  by simp

text \<open>
  C9 (the code at the failing input). \<^verbatim>\<open>sftp.put\<close> raises an \<^verbatim>\<open>IOError\<close>: the log
  call of the handler has two places and one argument and raises \<^verbatim>\<open>IndexError\<close>,
  which leaves \<^verbatim>\<open>handle_entry\<close> before \<^verbatim>\<open>entry.fail\<close> is reached; the message of
  \<^verbatim>\<open>entry.fail\<close> could not be built either. When \<^verbatim>\<open>sftp.put\<close> raises another
  exception, the entry is failed and \<^verbatim>\<open>handle_entry\<close> returns normally.
\<close>

theorem handle_entry_ioerror_escapes:
  "handle_entry (serving_env null_sftp) upload_entry (put_raises (IOError ''No such file''))
       upload_cfg ''sftp://u@a.example/'' upload_world
     = (Some (IndexError ''Replacement index out of range for positional args tuple''),
        upload_world\<lparr>uploads := [(''/local/a.txt'', ''/up/a.txt'')]\<rparr>) \<and>
   failures (snd (handle_entry (serving_env null_sftp) upload_entry
       (put_raises (IOError ''No such file'')) upload_cfg ''sftp://u@a.example/'' upload_world)) = [] \<and>
   percent_format ''Remote directory does not exist: %s (%s)'' [''/up'']
     = Inl (TypeError ''not enough arguments for format string'') \<and>
   handle_entry (serving_env null_sftp) upload_entry (put_raises (OtherError ''timed out''))
       upload_cfg ''sftp://u@a.example/'' upload_world
     = (None, upload_world\<lparr>uploads := [(''/local/a.txt'', ''/up/a.txt'')],
          failures := [(upload_entry, FailUpload ''/local/a.txt'' (OtherError ''timed out''))]\<rparr>)"
  using basename_example up_join
  by (simp add: handle_entry_def upload_entry_def upload_cfg_def upload_world_def
      empty_world_def put_raises_def null_sftp_def serving_env_def entry_fail_def Let_def
      fmt1 fmt2 del: brace_format.simps percent_format.simps)

section \<open>Uploading: a failed connection\<close>

lemma handle_entry_failures:
  assumes "handle_entry ev entry sf cfg url_prefix w = (r, w')"
  shows "failures w' = failures w \<or>
    (\<exists>reason. failures w' = failures w @ [(entry, reason)] \<and> \<not> no_connection reason)"
  using assms unfolding handle_entry_def Let_def
  by (auto simp: entry_fail_def
      split: sum.splits exn.splits option.splits if_splits)

lemma upload_entries_failures:
  "upload_entries ev (Some sf) cfg url_prefix entries w = (r, w') \<Longrightarrow>
   \<exists>new. failures w' = failures w @ new \<and>
     list_all (\<lambda>(entry, reason). \<not> no_connection reason) new"
proof (induction entries arbitrary: w)
  case Nil
  then show ?case by simp
next
  case (Cons entry entries)
  obtain r1 w1 where he: "handle_entry ev entry sf cfg url_prefix w = (r1, w1)" by fastforce
  have "\<exists>n1. failures w1 = failures w @ n1
      \<and> list_all (\<lambda>(entry, reason). \<not> no_connection reason) n1"
  proof -
    from handle_entry_failures [OF he] consider "failures w1 = failures w"
      | reason where "failures w1 = failures w @ [(entry, reason)]" "\<not> no_connection reason"
      by blast
    then show ?thesis
    proof cases
      case 1
      then have "failures w1 = failures w @ []
          \<and> list_all (\<lambda>(entry, reason). \<not> no_connection reason) []" by simp
      then show ?thesis by blast
    next
      case 2
      then have "failures w1 = failures w @ [(entry, reason)]
          \<and> list_all (\<lambda>(entry, reason). \<not> no_connection reason) [(entry, reason)]" by simp
      then show ?thesis by blast
    qed
  qed
  then obtain n1 where
    n1: "failures w1 = failures w @ n1" "list_all (\<lambda>(entry, reason). \<not> no_connection reason) n1"
    by blast
  show ?case
  proof (cases r1)
    case (Some e)
    with Cons.prems he have "w' = w1" by simp
    with n1 show ?thesis by blast
  next
    case None
    with Cons.prems he have "upload_entries ev (Some sf) cfg url_prefix entries w1 = (r, w')"
      by simp
    from Cons.IH [OF this] obtain new where
      "failures w' = failures w1 @ new" "list_all (\<lambda>(entry, reason). \<not> no_connection reason) new"
      by blast
    with n1 have "failures w' = failures w @ (n1 @ new)
        \<and> list_all (\<lambda>(entry, reason). \<not> no_connection reason) (n1 @ new)"
      by simp
    then show ?thesis by blast
  qed
qed

lemma sftp_connect_loop_quiet:
  "failures (snd (sftp_connect_loop ev conf tries interval w)) = failures w \<and>
   uploads (snd (sftp_connect_loop ev conf tries interval w)) = uploads w"
  by (induction ev conf tries interval w rule: sftp_connect_loop.induct)
     (simp_all split: sum.splits option.splits)

lemma sftp_from_config_result:
  "(\<exists>m. fst (sftp_from_config ev cfg w) = Inl (PluginError m)) \<or>
   (\<exists>sf. fst (sftp_from_config ev cfg w) = Inr (Some sf))"
  unfolding sftp_from_config_def sftp_connect_def Let_def
  by (auto split: prod.splits sum.splits)

lemma sftp_from_config_quiet:
  "failures (snd (sftp_from_config ev cfg w)) = failures w \<and>
   uploads (snd (sftp_from_config ev cfg w)) = uploads w"
proof -
  define conf where "conf = \<lparr>host = Some (cfg_host cfg), port = cfg_port cfg,
                        username = Some (cfg_username cfg), password = cfg_password cfg,
                        private_key = cfg_private_key cfg,
                        private_key_pass = cfg_private_key_pass cfg\<rparr>"
  show ?thesis
    using sftp_connect_loop_quiet [where ev = ev and conf = conf and tries = CONNECT_TRIES
        and interval = RETRY_INTERVAL and w = w]
    by (auto simp: sftp_from_config_def sftp_connect_def conf_def [symmetric]
        split: prod.splits sum.splits)
qed

text \<open>
  C10. \<^verbatim>\<open>sftp_from_config\<close> either raises a \<^verbatim>\<open>PluginError\<close> or returns a session,
  never \<^verbatim>\<open>None\<close>. When it raises, \<^verbatim>\<open>on_task_output\<close> raises that
  \<^verbatim>\<open>PluginError\<close> and no entry is handled: no failure is recorded and nothing is
  uploaded. On every input, none of the failures that \<^verbatim>\<open>on_task_output\<close> records has
  the reason of the branch without a session.
\<close>

theorem on_task_output_never_fails_for_no_connection:
  "((\<exists>m. fst (sftp_from_config ev (prepare_config_upload cfg) w) = Inl (PluginError m)) \<or>
    (\<exists>sf. fst (sftp_from_config ev (prepare_config_upload cfg) w) = Inr (Some sf))) \<and>
   (isl (fst (sftp_from_config ev (prepare_config_upload cfg) w)) \<longrightarrow>
      (\<exists>m. fst (on_task_output ev accepted cfg w) = Some (PluginError m)) \<and>
      failures (snd (on_task_output ev accepted cfg w)) = failures w \<and>
      uploads (snd (on_task_output ev accepted cfg w)) = uploads w) \<and>
   (\<exists>new. failures (snd (on_task_output ev accepted cfg w)) = failures w @ new \<and>
      list_all (\<lambda>(entry, reason). \<not> no_connection reason) new)"
proof -
  let ?c = "sftp_from_config ev (prepare_config_upload cfg) w"
  have res: "(\<exists>m. fst ?c = Inl (PluginError m)) \<or> (\<exists>sf. fst ?c = Inr (Some sf))"
    by (rule sftp_from_config_result)
  have quiet: "failures (snd ?c) = failures w" "uploads (snd ?c) = uploads w"
    using sftp_from_config_quiet [of ev "prepare_config_upload cfg" w] by simp_all
  have raise: "(\<exists>m. fst (on_task_output ev accepted cfg w) = Some (PluginError m)) \<and>
      failures (snd (on_task_output ev accepted cfg w)) = failures w \<and>
      uploads (snd (on_task_output ev accepted cfg w)) = uploads w"
    if "isl (fst ?c)"
  proof -
    from that res obtain m where m: "fst ?c = Inl (PluginError m)" by auto
    then have "on_task_output ev accepted cfg w = (Some (PluginError m), snd ?c)"
      by (cases ?c) (simp add: on_task_output_def Let_def)
    with quiet show ?thesis by simp
  qed
  have new: "\<exists>new. failures (snd (on_task_output ev accepted cfg w)) = failures w @ new \<and>
      list_all (\<lambda>(entry, reason). \<not> no_connection reason) new"
  proof (cases "isl (fst ?c)")
    case True
    from raise [OF True] have "failures (snd (on_task_output ev accepted cfg w)) = failures w @ []
        \<and> list_all (\<lambda>(entry, reason). \<not> no_connection reason) []" by simp
    then show ?thesis by blast
  next
    case False
    with res obtain sf where sf: "fst ?c = Inr (Some sf)" by auto
    obtain r w' where run: "upload_entries ev (Some sf) (prepare_config_upload cfg)
        (sftp_prefix (prepare_config_upload cfg)) accepted (snd ?c) = (r, w')" by fastforce
    from sf run have "on_task_output ev accepted cfg w = (r, w')"
      by (cases ?c) (simp add: on_task_output_def Let_def)
    with upload_entries_failures [OF run] quiet show ?thesis by simp
  qed
  from res raise new show ?thesis by blast
qed

lemma refused_config:
  "sftp_from_config refusing_env (prepare_config_upload upload_cfg) upload_world
     = (Inl (PluginError ''Failed to connect to a.example (refused)''),
        upload_world\<lparr>attempts := 4, sleeps := [15, 20, 25]\<rparr>)"
  by (simp add: sftp_from_config_def sftp_connect_def CONNECT_TRIES_def RETRY_INTERVAL_def
      RETRY_STEP_def eval_nat_numeral refusing_env_def prepare_config_upload_def upload_cfg_def
      upload_world_def empty_world_def Let_def)

theorem on_task_output_never_fails_for_no_connection_witness:
  "isl (fst (sftp_from_config refusing_env (prepare_config_upload upload_cfg) upload_world)) \<and>
   on_task_output refusing_env [upload_entry] upload_cfg upload_world
     = (Some (PluginError ''Failed to connect to a.example (refused)''),
        upload_world\<lparr>attempts := 4, sleeps := [15, 20, 25]\<rparr>) \<and>
   failures (snd (on_task_output refusing_env [upload_entry] upload_cfg upload_world))
     = failures upload_world \<and>
   uploads (snd (on_task_output refusing_env [upload_entry] upload_cfg upload_world))
     = uploads upload_world"
  using on_task_output_never_fails_for_no_connection
          [of refusing_env upload_cfg upload_world "[upload_entry]"]
  by (simp add: refused_config on_task_output_def Let_def)

end
